theory Spec2Isabelle
  imports Complex_Main "HOL-Library.Sublist"
begin

section \<open>Python values, dictionaries and strings\<close>

text \<open>
  A business record is a Python \<^verbatim>\<open>Dict[str, Any]\<close>.  The values that occur in the
  pipeline are \<^verbatim>\<open>None\<close>, booleans, integers and strings.  A dictionary is an
  association list with distinct keys in insertion order; \<^verbatim>\<open>d.get(k)\<close> is
  \<open>map_of d k\<close> and \<^verbatim>\<open>d[k] = v\<close> is \<open>dict_set\<close>, which overwrites in place or
  appends, as Python does.  Strings are lists of characters; a character is
  one of the 256 code points U+0000 to U+00FF, and the character classes and
  the case mapping below are Python's on these code points.
\<close>

datatype pyval = PNone | PBool bool | PInt int | PStr string

type_synonym pydict = "(string \<times> pyval) list"

text \<open>Python truthiness: \<^verbatim>\<open>None\<close>, \<^verbatim>\<open>False\<close>, \<^verbatim>\<open>0\<close> and \<^verbatim>\<open>''\<close> are false.\<close>

fun truthy :: "pyval \<Rightarrow> bool" where
  "truthy PNone = False"
| "truthy (PBool b) = b"
| "truthy (PInt n) = (n \<noteq> 0)"
| "truthy (PStr s) = (s \<noteq> [])"

text \<open>\<^verbatim>\<open>data.get(k)\<close> used as a condition: a missing key gives \<^verbatim>\<open>None\<close>.\<close>

definition get_truthy :: "pydict \<Rightarrow> string \<Rightarrow> bool" where
  "get_truthy d k = (case map_of d k of None \<Rightarrow> False | Some v \<Rightarrow> truthy v)"

text \<open>\<^verbatim>\<open>data.get(k) and data.get(k) != sentinel\<close>.\<close>

definition found :: "pydict \<Rightarrow> string \<Rightarrow> string \<Rightarrow> bool" where
  "found d k sentinel = (get_truthy d k \<and> map_of d k \<noteq> Some (PStr sentinel))"

fun dict_set :: "('k \<times> 'v) list \<Rightarrow> 'k \<Rightarrow> 'v \<Rightarrow> ('k \<times> 'v) list" where
  "dict_set [] k v = [(k, v)]"
| "dict_set ((k', v') # d) k v = (if k' = k then (k, v) # d else (k', v') # dict_set d k v)"

text \<open>\<^verbatim>\<open>d.update(e)\<close>: the entries of \<open>e\<close> are stored in order.\<close>

fun dict_update :: "('k \<times> 'v) list \<Rightarrow> ('k \<times> 'v) list \<Rightarrow> ('k \<times> 'v) list" where
  "dict_update d [] = d"
| "dict_update d ((k, v) # e) = dict_update (dict_set d k v) e"

text \<open>\<^verbatim>\<open>str.isspace\<close>, which is also the class \<^verbatim>\<open>\s\<close> and the whitespace of
  \<^verbatim>\<open>strip()\<close> and \<^verbatim>\<open>split()\<close>.\<close>

definition isspace :: "char \<Rightarrow> bool" where
  "isspace c = (c \<in> set [CHR 0x09, CHR 0x0A, CHR 0x0B, CHR 0x0C, CHR 0x0D,
                         CHR 0x1C, CHR 0x1D, CHR 0x1E, CHR 0x1F, CHR '' '',
                         CHR 0x85, CHR 0xA0])"

text \<open>The class \<^verbatim>\<open>\d\<close>, which is \<^verbatim>\<open>[0-9]\<close> on these code points.\<close>

definition re_digit :: "char \<Rightarrow> bool" where
  "re_digit c = (c \<in> set ''0123456789'')"

text \<open>\<^verbatim>\<open>str.isdigit\<close>, which also holds of the superscripts two, three and one.\<close>

definition isdigit :: "char \<Rightarrow> bool" where
  "isdigit c = (re_digit c \<or> c \<in> set [CHR 0xB2, CHR 0xB3, CHR 0xB9])"

text \<open>The classes \<^verbatim>\<open>[A-Z]\<close> and \<^verbatim>\<open>[a-zA-Z]\<close>.\<close>

definition upper_az :: "char \<Rightarrow> bool" where
  "upper_az c = (c \<in> set ''ABCDEFGHIJKLMNOPQRSTUVWXYZ'')"

definition alpha_az :: "char \<Rightarrow> bool" where
  "alpha_az c = (c \<in> set ''ABCDEFGHIJKLMNOPQRSTUVWXYZabcdefghijklmnopqrstuvwxyz'')"

text \<open>The letters and numeric characters above U+007F.\<close>

definition latin1_alnum :: "char list" where
  "latin1_alnum =
     [CHR 0xAA, CHR 0xB2, CHR 0xB3, CHR 0xB5, CHR 0xB9, CHR 0xBA, CHR 0xBC, CHR 0xBD, CHR 0xBE,
      CHR 0xC0, CHR 0xC1, CHR 0xC2, CHR 0xC3, CHR 0xC4, CHR 0xC5, CHR 0xC6, CHR 0xC7,
      CHR 0xC8, CHR 0xC9, CHR 0xCA, CHR 0xCB, CHR 0xCC, CHR 0xCD, CHR 0xCE, CHR 0xCF,
      CHR 0xD0, CHR 0xD1, CHR 0xD2, CHR 0xD3, CHR 0xD4, CHR 0xD5, CHR 0xD6,
      CHR 0xD8, CHR 0xD9, CHR 0xDA, CHR 0xDB, CHR 0xDC, CHR 0xDD, CHR 0xDE, CHR 0xDF,
      CHR 0xE0, CHR 0xE1, CHR 0xE2, CHR 0xE3, CHR 0xE4, CHR 0xE5, CHR 0xE6, CHR 0xE7,
      CHR 0xE8, CHR 0xE9, CHR 0xEA, CHR 0xEB, CHR 0xEC, CHR 0xED, CHR 0xEE, CHR 0xEF,
      CHR 0xF0, CHR 0xF1, CHR 0xF2, CHR 0xF3, CHR 0xF4, CHR 0xF5, CHR 0xF6,
      CHR 0xF8, CHR 0xF9, CHR 0xFA, CHR 0xFB, CHR 0xFC, CHR 0xFD, CHR 0xFE, CHR 0xFF]"

text \<open>The regular-expression class \<^verbatim>\<open>\w\<close>: letters, numeric characters and the
  underscore.\<close>

definition isword :: "char \<Rightarrow> bool" where
  "isword c = (alpha_az c \<or> re_digit c \<or> c = CHR ''_'' \<or> c \<in> set latin1_alnum)"

text \<open>The capital letters and their small letters, for \<^verbatim>\<open>str.lower\<close>: the letters
  A to Z, and U+00C0 to U+00DE but the multiplication sign U+00D7.\<close>

definition capitals :: "char list" where
  "capitals =
     ''ABCDEFGHIJKLMNOPQRSTUVWXYZ'' @
     [CHR 0xC0, CHR 0xC1, CHR 0xC2, CHR 0xC3, CHR 0xC4, CHR 0xC5, CHR 0xC6, CHR 0xC7,
      CHR 0xC8, CHR 0xC9, CHR 0xCA, CHR 0xCB, CHR 0xCC, CHR 0xCD, CHR 0xCE, CHR 0xCF,
      CHR 0xD0, CHR 0xD1, CHR 0xD2, CHR 0xD3, CHR 0xD4, CHR 0xD5, CHR 0xD6,
      CHR 0xD8, CHR 0xD9, CHR 0xDA, CHR 0xDB, CHR 0xDC, CHR 0xDD, CHR 0xDE]"

definition small_letters :: "char list" where
  "small_letters =
     ''abcdefghijklmnopqrstuvwxyz'' @
     [CHR 0xE0, CHR 0xE1, CHR 0xE2, CHR 0xE3, CHR 0xE4, CHR 0xE5, CHR 0xE6, CHR 0xE7,
      CHR 0xE8, CHR 0xE9, CHR 0xEA, CHR 0xEB, CHR 0xEC, CHR 0xED, CHR 0xEE, CHR 0xEF,
      CHR 0xF0, CHR 0xF1, CHR 0xF2, CHR 0xF3, CHR 0xF4, CHR 0xF5, CHR 0xF6,
      CHR 0xF8, CHR 0xF9, CHR 0xFA, CHR 0xFB, CHR 0xFC, CHR 0xFD, CHR 0xFE]"

definition lower_char :: "char \<Rightarrow> char" where
  "lower_char c = (case map_of (zip capitals small_letters) c of None \<Rightarrow> c | Some l \<Rightarrow> l)"

definition lower :: "string \<Rightarrow> string" where
  "lower s = map lower_char s"

definition strip :: "string \<Rightarrow> string" where
  "strip s = rev (dropWhile isspace (rev (dropWhile isspace s)))"

text \<open>\<^verbatim>\<open>s.split()\<close>: the maximal runs of non-whitespace characters.  The first
  argument is the word being read.\<close>

fun split_from :: "string \<Rightarrow> string \<Rightarrow> string list" where
  "split_from w [] = (if w = [] then [] else [w])"
| "split_from w (c # cs) =
     (if isspace c then (if w = [] then split_from [] cs else w # split_from [] cs)
      else split_from (w @ [c]) cs)"

definition split_ws :: "string \<Rightarrow> string list" where
  "split_ws s = split_from [] s"

text \<open>\<^verbatim>\<open>sep.join(parts)\<close>.\<close>

fun join :: "string \<Rightarrow> string list \<Rightarrow> string" where
  "join sep [] = []"
| "join sep [p] = p"
| "join sep (p # q # ps) = p @ sep @ join sep (q # ps)"

fun startswith :: "string \<Rightarrow> string \<Rightarrow> bool" where
  "startswith s [] = True"
| "startswith [] (p # ps) = False"
| "startswith (c # cs) (p # ps) = (c = p \<and> startswith cs ps)"

text \<open>\<^verbatim>\<open>p in s\<close> for strings: \<open>p\<close> occurs as a contiguous substring.\<close>

fun contains :: "string \<Rightarrow> string \<Rightarrow> bool" where
  "contains [] p = (p = [])"
| "contains (c # cs) p = (startswith (c # cs) p \<or> contains cs p)"

section \<open>Regular expressions\<close>

text \<open>
  Every pattern of the repository is a sequence of character classes under a
  repetition bound, anchors and word boundaries.  \<open>Rep p lo hi\<close> is the class
  \<open>p\<close> repeated at least \<open>lo\<close> times and at most \<open>hi\<close> times (\<open>None\<close>: unbounded).
  \<open>match_items\<close> is Python's backtracking matcher: repetitions are greedy and the
  first successful alternative is taken; it returns the text left after the
  match.  The second argument is the character before the current position.
\<close>

datatype item = Rep "char \<Rightarrow> bool" nat "nat option" | Bol | Eol | WordB

definition newline :: char where
  "newline = CHR 0x0A"

definition at_word :: "char option \<Rightarrow> bool" where
  "at_word c = (case c of None \<Rightarrow> False | Some x \<Rightarrow> isword x)"

definition first_char :: "string \<Rightarrow> char option" where
  "first_char s = (case s of [] \<Rightarrow> None | c # cs \<Rightarrow> Some c)"

definition may_repeat :: "nat option \<Rightarrow> bool" where
  "may_repeat hi = (hi \<noteq> Some 0)"

definition one_less :: "nat option \<Rightarrow> nat option" where
  "one_less hi = map_option (\<lambda>n. n - 1) hi"

fun match_items :: "item list \<Rightarrow> char option \<Rightarrow> string \<Rightarrow> string option" where
  "match_items [] prev s = Some s"
| "match_items (Bol # r) prev s = (if prev = None then match_items r prev s else None)"
| "match_items (Eol # r) prev s =
     (if s = [] \<or> s = [newline] then match_items r prev s else None)"
| "match_items (WordB # r) prev s =
     (if at_word prev \<noteq> at_word (first_char s) then match_items r prev s else None)"
| "match_items (Rep p lo hi # r) prev [] = (if lo = 0 then match_items r prev [] else None)"
| "match_items (Rep p lo hi # r) prev (c # cs) =
     (if p c \<and> may_repeat hi then
        (case match_items (Rep p (lo - 1) (one_less hi) # r) (Some c) cs of
           Some t \<Rightarrow> Some t
         | None \<Rightarrow> (if lo = 0 then match_items r prev (c # cs) else None))
      else if lo = 0 then match_items r prev (c # cs) else None)"

text \<open>\<^verbatim>\<open>re.match(pattern, s)\<close> as a condition.\<close>

definition re_match :: "item list \<Rightarrow> string \<Rightarrow> bool" where
  "re_match pat s = (match_items pat None s \<noteq> None)"

text \<open>\<^verbatim>\<open>re.search\<close>: the leftmost match.  The result is the text from the start of
  the match and the text left after it.\<close>

fun search_from :: "item list \<Rightarrow> char option \<Rightarrow> string \<Rightarrow> (string \<times> string) option" where
  "search_from pat prev [] =
     (case match_items pat prev [] of None \<Rightarrow> None | Some t \<Rightarrow> Some ([], t))"
| "search_from pat prev (c # cs) =
     (case match_items pat prev (c # cs) of
        None \<Rightarrow> search_from pat (Some c) cs
      | Some t \<Rightarrow> Some (c # cs, t))"

definition re_search :: "item list \<Rightarrow> string \<Rightarrow> bool" where
  "re_search pat s = (search_from pat None s \<noteq> None)"

text \<open>\<^verbatim>\<open>m.group()\<close> of a search result.\<close>

definition matched_text :: "string \<times> string \<Rightarrow> string" where
  "matched_text m = take (length (fst m) - length (snd m)) (fst m)"

definition rep_once :: "(char \<Rightarrow> bool) \<Rightarrow> item" where
  "rep_once p = Rep p 1 (Some 1)"

definition rep_times :: "nat \<Rightarrow> (char \<Rightarrow> bool) \<Rightarrow> item" where
  "rep_times n p = Rep p n (Some n)"

definition rep_opt :: "(char \<Rightarrow> bool) \<Rightarrow> item" where
  "rep_opt p = Rep p 0 (Some 1)"

definition rep_plus :: "(char \<Rightarrow> bool) \<Rightarrow> item" where
  "rep_plus p = Rep p 1 None"

definition is_char :: "char \<Rightarrow> char \<Rightarrow> bool" where
  "is_char a c = (c = a)"

definition one_of :: "string \<Rightarrow> char \<Rightarrow> bool" where
  "one_of cs c = (c \<in> set cs)"

text \<open>The regular-expression dot: any character but a newline.\<close>

definition dot :: "char \<Rightarrow> bool" where
  "dot c = (c \<noteq> newline)"

text \<open>A literal text as a pattern.\<close>

definition lit :: "string \<Rightarrow> item list" where
  "lit s = map (\<lambda>a. rep_once (is_char a)) s"

section \<open>DataValidator: the business-path scores\<close>

text \<open>
  The model of \<^verbatim>\<open>src/processors/data_validator.py\<close>.  An exception raised by a
  string method on a value that is not a string is a value of type \<open>exn\<close>; a
  function that can raise returns \<open>exn + 'a\<close>.  \<open>OtherError\<close> stands for any
  exception of an external collaborator.
\<close>

datatype exn = AttributeError | TypeError | KeyError | OtherError

definition bind_exn :: "exn + 'a \<Rightarrow> ('a \<Rightarrow> exn + 'b) \<Rightarrow> exn + 'b" where
  "bind_exn m f = (case m of Inl e \<Rightarrow> Inl e | Inr x \<Rightarrow> f x)"

text \<open>\<^verbatim>\<open>d.get(k, '').strip()\<close> and the like: the receiver of a string method.\<close>

definition get_str :: "pydict \<Rightarrow> string \<Rightarrow> exn + string" where
  "get_str d k =
     (case map_of d k of
        None \<Rightarrow> Inr []
      | Some (PStr s) \<Rightarrow> Inr s
      | Some _ \<Rightarrow> Inl AttributeError)"

definition upper_char :: "char \<Rightarrow> char" where
  "upper_char c =
     (case map_of (zip ''abcdefghijklmnopqrstuvwxyz'' ''ABCDEFGHIJKLMNOPQRSTUVWXYZ'') c of
        None \<Rightarrow> c | Some u \<Rightarrow> u)"

text \<open>\<^verbatim>\<open>s.title()\<close> of a text of the letters a to z and other characters below
  U+0080, which is all the code applies it to (the keys of \<open>suffixes\<close>); the flag
  says that the previous character is a letter.\<close>

fun title_from :: "bool \<Rightarrow> string \<Rightarrow> string" where
  "title_from prev [] = []"
| "title_from prev (c # cs) =
     (if alpha_az c then (if prev then lower_char c else upper_char c) # title_from True cs
      else c # title_from False cs)"

definition title :: "string \<Rightarrow> string" where
  "title s = title_from False s"

text \<open>\<^verbatim>\<open>s.replace(old, new)\<close> for a non-empty \<open>old\<close>: the occurrences are replaced
  from the left, without overlap.  The counter is the number of characters of
  the occurrence just replaced that are still to be skipped.\<close>

fun replace_from :: "nat \<Rightarrow> string \<Rightarrow> string \<Rightarrow> string \<Rightarrow> string" where
  "replace_from k [] old new = []"
| "replace_from (Suc k) (c # cs) old new = replace_from k cs old new"
| "replace_from 0 (c # cs) old new =
     (if startswith (c # cs) old then new @ replace_from (length old - 1) cs old new
      else c # replace_from 0 cs old new)"

definition replace :: "string \<Rightarrow> string \<Rightarrow> string \<Rightarrow> string" where
  "replace s old new = replace_from 0 s old new"

definition suffixes :: "(string \<times> string) list" where
  "suffixes = [('' inc.'', '' Inc.''), ('' llc'', '' LLC''), ('' corp.'', '' Corp.''),
               ('' ltd.'', '' Ltd.''), ('' co.'', '' Co.'')]"

text \<open>\<^verbatim>\<open>DataValidator._clean_business_name\<close>.\<close>

definition clean_business_name :: "string \<Rightarrow> string" where
  "clean_business_name name =
     foldl (\<lambda>cleaned (old, new). replace (replace cleaned old new) (title old) new)
       (join '' '' (split_ws name)) suffixes"

text \<open>\<^verbatim>\<open>s.split(sep)\<close> for a one-character separator.\<close>

fun split_on :: "char \<Rightarrow> string \<Rightarrow> string list" where
  "split_on sep [] = [[]]"
| "split_on sep (c # cs) =
     (if c = sep then [] # split_on sep cs
      else (case split_on sep cs of [] \<Rightarrow> [[c]] | p # ps \<Rightarrow> (c # p) # ps))"

text \<open>The pattern \<^verbatim>\<open>([A-Z]{2})\s+(\d{5})\<close>.\<close>

definition state_zip_pattern :: "item list" where
  "state_zip_pattern = [rep_times 2 upper_az, rep_plus isspace, rep_times 5 re_digit]"

text \<open>\<^verbatim>\<open>DataValidator._parse_address\<close>.\<close>

definition parse_address :: "string \<Rightarrow> pydict" where
  "parse_address address =
     (if address \<noteq> [] \<and> address \<noteq> ''NOT_FOUND'' then
        (let parsed = [(''headquarters_address'', PStr address)];
             parts = split_on (CHR '','') address
         in if length parts \<ge> 2 then
              (let parsed = dict_set parsed ''headquarters_city''
                              (PStr (strip (parts ! (length parts - 2))));
                   last_part = strip (last parts)
               in case search_from state_zip_pattern None last_part of
                    None \<Rightarrow> parsed
                  | Some m \<Rightarrow>
                      (let g = matched_text m;
                           parsed = dict_set parsed ''headquarters_state'' (PStr (take 2 g))
                       in dict_set parsed ''headquarters_zip''
                            (PStr (drop (length g - 5) g))))
            else parsed)
      else [])"

text \<open>\<^verbatim>\<open>DataValidator._clean_description\<close>.\<close>

definition clean_description :: "string \<Rightarrow> string" where
  "clean_description description =
     (let cleaned = join '' '' (split_ws description)
      in if length cleaned > 500 then take 497 cleaned @ ''...'' else cleaned)"

text \<open>\<^verbatim>\<open>DataValidator._validate_core_fields\<close>.\<close>

definition validate_core_fields :: "pydict \<Rightarrow> exn + pydict" where
  "validate_core_fields d =
     bind_exn (get_str d ''business_name'') (\<lambda>name.
       let business_name = strip name;
           validated = (if business_name \<noteq> []
                        then dict_set d ''business_name'' (PStr (clean_business_name business_name))
                        else dict_set d ''business_name'' (PStr ''UNKNOWN''))
       in bind_exn (get_str validated ''address'') (\<lambda>addr.
            let address = strip addr;
                validated = (if address \<noteq> [] then dict_update validated (parse_address address)
                             else validated)
            in bind_exn (get_str validated ''business_description'') (\<lambda>descr.
                 let description = strip descr
                 in Inr (if description \<noteq> []
                         then dict_set validated ''business_description''
                                (PStr (clean_description description))
                         else validated))))"

text \<open>The patterns of \<^verbatim>\<open>DataValidator.__init__\<close>:
  \<^verbatim>\<open>^[a-zA-Z0-9._%+-]+@[a-zA-Z0-9.-]+\.[a-zA-Z]{2,}$\<close>,
  \<^verbatim>\<open>^\(\d{3}\) \d{3}-\d{4}$\<close> and \<^verbatim>\<open>^https?://.+\..+\<close>.\<close>

definition alnum_az :: "char \<Rightarrow> bool" where
  "alnum_az c = (alpha_az c \<or> re_digit c)"

definition email_pattern :: "item list" where
  "email_pattern =
     [Bol, rep_plus (\<lambda>c. alnum_az c \<or> one_of ''._%+-'' c), rep_once (is_char (CHR ''@'')),
      rep_plus (\<lambda>c. alnum_az c \<or> one_of ''.-'' c), rep_once (is_char (CHR ''.'')),
      Rep alpha_az 2 None, Eol]"

definition phone_pattern :: "item list" where
  "phone_pattern =
     [Bol, rep_once (is_char (CHR ''('')), rep_times 3 re_digit, rep_once (is_char (CHR '')'')),
      rep_once (is_char (CHR '' '')), rep_times 3 re_digit, rep_once (is_char (CHR ''-'')),
      rep_times 4 re_digit, Eol]"

definition url_pattern :: "item list" where
  "url_pattern =
     Bol # lit ''http'' @ [rep_opt (is_char (CHR ''s''))] @ lit ''://'' @
     [rep_plus dot, rep_once (is_char (CHR ''.'')), rep_plus dot]"

text \<open>\<^verbatim>\<open>DataValidator._validate_phone\<close>.\<close>

definition validate_phone :: "string \<Rightarrow> string" where
  "validate_phone phone =
     (if phone = [] \<or> phone = ''NOT_FOUND'' then ''NOT_FOUND''
      else
        (let digits = filter isdigit phone
         in if length digits = 10 then
              (let formatted = ''('' @ take 3 digits @ '') '' @ take 3 (drop 3 digits) @ ''-''
                               @ drop 6 digits
               in if re_match phone_pattern formatted then formatted else phone)
            else if length digits = 11 \<and> digits ! 0 = CHR ''1'' then
              (let formatted = ''('' @ take 3 (drop 1 digits) @ '') '' @ take 3 (drop 4 digits)
                               @ ''-'' @ drop 7 digits
               in if re_match phone_pattern formatted then formatted else phone)
            else phone))"

text \<open>\<^verbatim>\<open>DataValidator._validate_email\<close>.\<close>

definition validate_email :: "string \<Rightarrow> string" where
  "validate_email email =
     (if email = [] \<or> email = ''NOT_FOUND'' then ''NOT_FOUND''
      else
        (let email = lower (strip email)
         in if re_match email_pattern email then email else ''INVALID_EMAIL''))"

text \<open>\<^verbatim>\<open>DataValidator._validate_website\<close>.\<close>

definition validate_website :: "string \<Rightarrow> string" where
  "validate_website website =
     (if website = [] \<or> website = ''NOT_FOUND'' then ''NOT_FOUND''
      else
        (let website = strip website;
             website = (if \<not> (startswith website ''http://'' \<or> startswith website ''https://'')
                        then ''https://'' @ website else website)
         in if re_match url_pattern website then website else ''INVALID_URL''))"

text \<open>One field of \<^verbatim>\<open>_validate_contact_info\<close>: a value that is present, true and not
  the sentinel is replaced by its validated form; the validators use string
  operations, which raise on any other value.\<close>

definition validate_field :: "(string \<Rightarrow> string) \<Rightarrow> exn \<Rightarrow> pydict \<Rightarrow> string \<Rightarrow> exn + pydict" where
  "validate_field f e d k =
     (case map_of d k of
        None \<Rightarrow> Inr d
      | Some v \<Rightarrow>
          (if truthy v \<and> v \<noteq> PStr ''NOT_FOUND'' then
             (case v of PStr s \<Rightarrow> Inr (dict_set d k (PStr (f s))) | _ \<Rightarrow> Inl e)
           else Inr d))"

text \<open>\<^verbatim>\<open>DataValidator._validate_contact_info\<close>.\<close>

definition validate_contact_info :: "pydict \<Rightarrow> exn + pydict" where
  "validate_contact_info d =
     bind_exn (validate_field validate_phone TypeError d ''phone_number'') (\<lambda>d.
     bind_exn (validate_field validate_email AttributeError d ''ceo_email'') (\<lambda>d.
     bind_exn (validate_field validate_email AttributeError d ''general_email'') (\<lambda>d.
     bind_exn (validate_field validate_email AttributeError d ''sales_email'') (\<lambda>d.
     bind_exn (validate_field validate_email AttributeError d ''support_email'') (\<lambda>d.
     validate_field validate_website AttributeError d ''website'')))))"

text \<open>\<^verbatim>\<open>DataValidator._calculate_lead_score\<close> (src/processors/data_validator.py).\<close>

definition calculate_lead_score :: "pydict \<Rightarrow> int" where
  "calculate_lead_score d =
     (let score = 5;
          score = (if get_truthy d ''company_size'' then score + 1 else score);
          score = (if get_truthy d ''service_type'' \<or> get_truthy d ''technology_focus''
                   then score + 1 else score);
          score = (if found d ''ceo_email'' ''NOT_FOUND'' then score + 2
                   else if found d ''general_email'' ''NOT_FOUND'' then score + 1
                   else score);
          score = (if found d ''website'' ''NOT_FOUND'' then score + 1 else score)
      in min 10 score)"

text \<open>\<^verbatim>\<open>DataValidator._calculate_overall_quality_score\<close>.\<close>

definition calculate_overall_quality_score :: "pydict \<Rightarrow> int" where
  "calculate_overall_quality_score d =
     (let score = 0;
          score = (if found d ''business_name'' ''UNKNOWN'' then score + 2 else score);
          score = (if get_truthy d ''business_description'' then score + 1 else score);
          score = (if get_truthy d ''industry'' \<or> get_truthy d ''industry_primary''
                   then score + 1 else score);
          score = (if found d ''phone_number'' ''NOT_FOUND'' then score + 1 else score);
          score = (if found d ''address'' ''NOT_FOUND'' then score + 1 else score);
          score = (if found d ''website'' ''NOT_FOUND'' then score + 1 else score);
          score = (if found d ''ceo_name'' ''NOT_FOUND'' then score + 1 else score);
          score = (if found d ''ceo_email'' ''NOT_FOUND'' then score + 1 else score);
          score = (if found d ''general_email'' ''NOT_FOUND'' then score + 1 else score)
      in min 10 score)"

text \<open>\<^verbatim>\<open>DataValidator._calculate_confidence_score\<close>.\<close>

definition calculate_confidence_score :: "pydict \<Rightarrow> int" where
  "calculate_confidence_score d =
     (let score = 10;
          score = (if \<not> found d ''business_name'' ''UNKNOWN'' then score - 3 else score);
          score = (if \<not> found d ''phone_number'' ''NOT_FOUND'' then score - 2 else score);
          score = (if \<not> found d ''address'' ''NOT_FOUND'' then score - 2 else score);
          score = (if \<not> found d ''website'' ''NOT_FOUND'' then score - 1 else score);
          score = (if found d ''ceo_name'' ''NOT_FOUND'' then score + 1 else score);
          score = (if found d ''ceo_email'' ''NOT_FOUND'' then score + 1 else score)
      in max 1 (min 10 score))"

text \<open>The condition of the completeness count:
  \<^verbatim>\<open>value and str(value).strip() and value != 'NOT_FOUND'\<close>.  The text of a true
  number or boolean is never blank.\<close>

definition completed :: "pyval \<Rightarrow> bool" where
  "completed v =
     (truthy v \<and> (case v of PStr s \<Rightarrow> strip s \<noteq> [] | _ \<Rightarrow> True) \<and> v \<noteq> PStr ''NOT_FOUND'')"

text \<open>\<^verbatim>\<open>int((completed_fields / 50) * 100)\<close> in double-precision arithmetic: twice
  the count, except that \<^verbatim>\<open>(29 / 50) * 100\<close> is \<^verbatim>\<open>57.99999999999999\<close>.\<close>

definition percent_of_fifty :: "nat \<Rightarrow> int" where
  "percent_of_fifty n = (if n = 29 then 57 else 2 * int n)"

text \<open>\<^verbatim>\<open>DataValidator._calculate_quality_scores\<close>.\<close>

definition calculate_quality_scores :: "pydict \<Rightarrow> pydict" where
  "calculate_quality_scores d =
     (let completed_fields = length (filter (\<lambda>(k, v). completed v) d);
          completeness_score = min 100 (percent_of_fifty completed_fields);
          enhanced = dict_set d ''completeness_score'' (PInt completeness_score);
          enhanced = dict_set enhanced ''confidence_score'' (PInt (calculate_confidence_score d));
          enhanced = dict_set enhanced ''data_quality_score''
                       (PInt (calculate_overall_quality_score d))
      in dict_set enhanced ''lead_score'' (PInt (calculate_lead_score d)))"

text \<open>A value compared with a number by \<^verbatim>\<open>>=\<close>.\<close>

definition as_number :: "pyval option \<Rightarrow> exn + int" where
  "as_number v =
     (case v of
        None \<Rightarrow> Inr 0
      | Some (PInt n) \<Rightarrow> Inr n
      | Some (PBool b) \<Rightarrow> Inr (if b then 1 else 0)
      | Some _ \<Rightarrow> Inl TypeError)"

text \<open>\<^verbatim>\<open>DataValidator._add_validation_metadata\<close>; the clock reading is a parameter.\<close>

definition add_validation_metadata :: "string \<Rightarrow> pydict \<Rightarrow> exn + pydict" where
  "add_validation_metadata now d =
     (let enhanced = dict_set d ''validation_date'' (PStr now)
      in bind_exn (as_number (map_of enhanced ''data_quality_score'')) (\<lambda>quality_score.
           Inr (dict_set enhanced ''validation_status''
                  (PStr (if quality_score \<ge> 8 then ''high_quality''
                         else if quality_score \<ge> 6 then ''good_quality''
                         else if quality_score \<ge> 4 then ''acceptable_quality''
                         else ''needs_review'')))))"

text \<open>\<^verbatim>\<open>DataValidator.validate_and_enhance\<close>: the record reached before an
  exception is the one returned.\<close>

definition validate_and_enhance :: "string \<Rightarrow> pydict \<Rightarrow> pydict" where
  "validate_and_enhance now business_data =
     (case validate_core_fields business_data of
        Inl e \<Rightarrow> business_data
      | Inr d1 \<Rightarrow>
          (case validate_contact_info d1 of
             Inl e \<Rightarrow> d1
           | Inr d2 \<Rightarrow>
               (let d3 = calculate_quality_scores d2
                in case add_validation_metadata now d3 of Inl e \<Rightarrow> d3 | Inr d4 \<Rightarrow> d4)))"

text \<open>The indicator of a condition, for stating point tables.\<close>

definition pts :: "int \<Rightarrow> bool \<Rightarrow> int" where
  "pts n b = (if b then n else 0)"

subsection \<open>The quality table in the specification's words\<close>

text \<open>
  The specification's table awards a point for a valid phone, a valid address
  and a valid website.  Its validity rules: a phone is valid iff it has exactly
  10 digits, or 11 digits with a leading 1; an address iff it is longer than 10
  characters and contains a digit; a website iff it parses as an absolute URL
  once \<^verbatim>\<open>https://\<close> is prepended where missing, which is the test of
  \<open>validate_website\<close>.
\<close>

definition spec_valid_phone :: "string \<Rightarrow> bool" where
  "spec_valid_phone p =
     (let digits = filter isdigit p
      in length digits = 10 \<or> (length digits = 11 \<and> take 1 digits = ''1''))"

definition spec_valid_address :: "string \<Rightarrow> bool" where
  "spec_valid_address a = (length a > 10 \<and> list_ex isdigit a)"

definition spec_valid_website :: "string \<Rightarrow> bool" where
  "spec_valid_website w = (w \<noteq> [] \<and> validate_website w \<noteq> ''INVALID_URL'')"

definition field_is :: "(string \<Rightarrow> bool) \<Rightarrow> pydict \<Rightarrow> string \<Rightarrow> bool" where
  "field_is p d k = (case map_of d k of Some (PStr s) \<Rightarrow> p s | _ \<Rightarrow> False)"

definition spec_quality_score :: "pydict \<Rightarrow> int" where
  "spec_quality_score d =
     min 10
       (pts 2 (found d ''business_name'' ''UNKNOWN'')
        + pts 1 (get_truthy d ''business_description'')
        + pts 1 (get_truthy d ''industry'' \<or> get_truthy d ''industry_primary'')
        + pts 1 (field_is spec_valid_phone d ''phone_number'')
        + pts 1 (field_is spec_valid_address d ''address'')
        + pts 1 (field_is spec_valid_website d ''website'')
        + pts 1 (found d ''ceo_name'' ''NOT_FOUND'')
        + pts 1 (found d ''ceo_email'' ''NOT_FOUND'')
        + pts 1 (found d ''general_email'' ''NOT_FOUND''))"

definition unchecked_record :: pydict where
  "unchecked_record =
     [(''business_name'', PStr ''Acme Fiber Internet''),
      (''phone_number'', PStr ''call us''),
      (''address'', PStr ''Raleigh''),
      (''website'', PStr ''INVALID_URL'')]"

definition lead_record :: pydict where
  "lead_record =
     [(''business_name'', PStr ''Acme Fiber Internet''),
      (''company_size'', PStr ''50-100''),
      (''ceo_email'', PStr ''NOT_FOUND''),
      (''general_email'', PStr ''info@acmefiber.example''),
      (''website'', PStr ''https://acmefiber.example'')]"

section \<open>ISPDataValidator: the ISP quality score\<close>

text \<open>
  The model of \<^verbatim>\<open>ISPDataValidator\<close> (scripts/run\_isp\_nc.py).  The score is a
  Python float built from the literals 0.25, 0.15, 0.20 and 0.05 and rounded
  to two places; every sum of these literals is within rounding distance of a
  multiple of 0.05, so the rounded float is the double nearest to the exact
  sum, and the model computes with exact rationals.  The library function
  \<^verbatim>\<open>urlparse\<close> is not part of the repository: \<open>url_ok w\<close> stands for
  \<^verbatim>\<open>urlparse(w)\<close> having a scheme and a network location.
\<close>

record isp_validation =
  quality_score :: rat
  phone_valid :: bool
  website_valid :: bool
  validation_flags :: "string list"

text \<open>\<^verbatim>\<open>round(score, 2)\<close>.\<close>

definition round2 :: "rat \<Rightarrow> rat" where
  "round2 x = of_int (round (x * 100)) / 100"

text \<open>The pattern \<^verbatim>\<open>^\(?([0-9]{3})\)?[-. ]?([0-9]{3})[-. ]?([0-9]{4})$\<close>.\<close>

definition isp_phone_pattern :: "item list" where
  "isp_phone_pattern =
     [Bol, rep_opt (is_char (CHR ''('')), rep_times 3 re_digit, rep_opt (is_char (CHR '')'')),
      rep_opt (one_of ''-. ''), rep_times 3 re_digit, rep_opt (one_of ''-. ''),
      rep_times 4 re_digit, Eol]"

text \<open>\<^verbatim>\<open>d.get(k, '')\<close>.\<close>

definition get_or_empty :: "pydict \<Rightarrow> string \<Rightarrow> pyval" where
  "get_or_empty d k = (case map_of d k of None \<Rightarrow> PStr [] | Some v \<Rightarrow> v)"

text \<open>\<^verbatim>\<open>ISPDataValidator._validate_phone\<close>: \<^verbatim>\<open>phone.strip()\<close> raises on a true value
  that is not a string.\<close>

definition isp_validate_phone :: "pyval \<Rightarrow> exn + bool" where
  "isp_validate_phone phone =
     (if \<not> truthy phone then Inr False
      else (case phone of
              PStr s \<Rightarrow> Inr (re_match isp_phone_pattern (strip s))
            | _ \<Rightarrow> Inl AttributeError))"

text \<open>\<^verbatim>\<open>ISPDataValidator._validate_website\<close>: every exception of \<^verbatim>\<open>urlparse\<close> is
  caught and gives \<^verbatim>\<open>False\<close>.\<close>

definition isp_validate_website :: "(string \<Rightarrow> bool) \<Rightarrow> pyval \<Rightarrow> bool" where
  "isp_validate_website url_ok website =
     (if \<not> truthy website then False
      else (case website of PStr s \<Rightarrow> url_ok s | _ \<Rightarrow> False))"

text \<open>\<^verbatim>\<open>ISPDataValidator.validate\<close>.\<close>

definition isp_validate :: "(string \<Rightarrow> bool) \<Rightarrow> pydict \<Rightarrow> exn + isp_validation" where
  "isp_validate url_ok business_data =
     (let score = 0;
          flags = [];
          (score, flags) = (if get_truthy business_data ''business_name''
                            then (score + 0.25, flags)
                            else (score, flags @ [''missing_business_name'']));
          (score, flags) = (if get_truthy business_data ''address''
                            then (score + 0.15, flags)
                            else (score, flags @ [''missing_address'']))
      in bind_exn
           (if get_truthy business_data ''phone_number'' then
              bind_exn (isp_validate_phone (get_or_empty business_data ''phone_number''))
                (\<lambda>ok. Inr (if ok then (score + 0.20 + 0.05, flags)
                            else (score + 0.20, flags @ [''invalid_phone_format''])))
            else Inr (score, flags @ [''missing_phone'']))
           (\<lambda>(score, flags).
              let (score, flags) =
                    (if get_truthy business_data ''website'' then
                       (if isp_validate_website url_ok (get_or_empty business_data ''website'')
                        then (score + 0.15 + 0.05, flags)
                        else (score + 0.15, flags @ [''invalid_website_format'']))
                     else (score, flags @ [''missing_website'']));
                  (score, flags) = (if get_truthy business_data ''business_description''
                                    then (score + 0.15, flags)
                                    else (score, flags @ [''missing_description'']));
                  score = (if get_truthy business_data ''service_type''
                           then score + 0.05 else score);
                  score = (if get_truthy business_data ''coverage''
                           then score + 0.05 else score)
              in bind_exn (isp_validate_phone (get_or_empty business_data ''phone_number''))
                   (\<lambda>pv. Inr \<lparr>quality_score = round2 score,
                                phone_valid = pv,
                                website_valid =
                                  isp_validate_website url_ok
                                    (get_or_empty business_data ''website''),
                                validation_flags = flags\<rparr>)))"

text \<open>The weight of a factor in the ISP table.\<close>

definition wt :: "rat \<Rightarrow> bool \<Rightarrow> rat" where
  "wt w b = (if b then w else 0)"

text \<open>A value on which string methods do not raise when it is true.\<close>

definition str_or_false :: "pyval \<Rightarrow> bool" where
  "str_or_false v = (case v of PStr s \<Rightarrow> True | _ \<Rightarrow> \<not> truthy v)"

text \<open>\<^verbatim>\<open>phone\<close> is a string that matches the phone pattern once stripped.\<close>

definition well_formed_phone :: "pyval \<Rightarrow> bool" where
  "well_formed_phone v = (case v of PStr s \<Rightarrow> re_match isp_phone_pattern (strip s) | _ \<Rightarrow> False)"

text \<open>The table of weights: each factor is the presence of a field; the two
  bonuses are for a phone number that matches the phone pattern and for a
  website that \<^verbatim>\<open>urlparse\<close> accepts.\<close>

definition isp_weight_table :: "(string \<Rightarrow> bool) \<Rightarrow> pydict \<Rightarrow> rat" where
  "isp_weight_table url_ok d =
     wt 0.25 (get_truthy d ''business_name'')
     + wt 0.15 (get_truthy d ''address'')
     + wt 0.20 (get_truthy d ''phone_number'')
     + wt 0.05 (get_truthy d ''phone_number''
                \<and> well_formed_phone (get_or_empty d ''phone_number''))
     + wt 0.15 (get_truthy d ''website'')
     + wt 0.05 (get_truthy d ''website''
                \<and> isp_validate_website url_ok (get_or_empty d ''website''))
     + wt 0.15 (get_truthy d ''business_description'')
     + wt 0.05 (get_truthy d ''service_type'')
     + wt 0.05 (get_truthy d ''coverage'')"

definition full_isp_record :: pydict where
  "full_isp_record =
     [(''business_name'', PStr ''Acme Fiber Internet''),
      (''address'', PStr ''12 Main St, Raleigh, NC 27601''),
      (''phone_number'', PStr ''(555) 123-4567''),
      (''website'', PStr ''https://acmefiber.example''),
      (''business_description'', PStr ''fiber optic broadband provider''),
      (''service_type'', PStr ''Fiber''),
      (''coverage'', PStr ''North Carolina'')]"

text \<open>A phone number followed by a no-break space, U+00A0.\<close>

definition padded_phone_record :: pydict where
  "padded_phone_record = [(''phone_number'', PStr (''(555) 123-4567'' @ [CHR 0xA0]))]"

section \<open>CRMLeadAgent: exact-key deduplication\<close>

text \<open>
  The model of \<^verbatim>\<open>CRMLeadAgent._deduplicate_businesses\<close>
  (src/agents/crm\_lead\_agent.py).  The key of a record is its phone number
  with the surrounding whitespace removed, or, when that is empty, its business
  name in lower case with the surrounding whitespace removed.  The string
  methods raise on a value that is not a string, and the exception leaves the
  function.
\<close>

definition dedup_key :: "pydict \<Rightarrow> exn + string" where
  "dedup_key business =
     bind_exn (get_str business ''business_name'') (\<lambda>n.
       let name = strip (lower n)
       in bind_exn (get_str business ''phone_number'') (\<lambda>p.
            let phone = strip p
            in Inr (if phone \<noteq> [] then phone else name)))"

fun dedup_loop :: "string set \<Rightarrow> pydict list \<Rightarrow> pydict list \<Rightarrow> exn + pydict list" where
  "dedup_loop seen unique_data [] = Inr unique_data"
| "dedup_loop seen unique_data (business # rest) =
     bind_exn (dedup_key business) (\<lambda>key.
       if key \<noteq> [] \<and> key \<notin> seen
       then dedup_loop (insert key seen) (unique_data @ [business]) rest
       else dedup_loop seen unique_data rest)"

definition deduplicate_businesses :: "pydict list \<Rightarrow> exn + pydict list" where
  "deduplicate_businesses data = dedup_loop {} [] data"

text \<open>A field on which the string methods do not raise: absent or a string.\<close>

definition str_field :: "pydict \<Rightarrow> string \<Rightarrow> bool" where
  "str_field d k = (case map_of d k of None \<Rightarrow> True | Some (PStr s) \<Rightarrow> True | Some _ \<Rightarrow> False)"

text \<open>\<^verbatim>\<open>d.get(k, '')\<close> of such a field.\<close>

definition str_of :: "pydict \<Rightarrow> string \<Rightarrow> string" where
  "str_of d k = (case map_of d k of Some (PStr s) \<Rightarrow> s | _ \<Rightarrow> [])"

definition keyed :: "pydict \<Rightarrow> bool" where
  "keyed business = (str_field business ''business_name'' \<and> str_field business ''phone_number'')"

text \<open>The key of a record whose name and phone number are strings.\<close>

definition key_of :: "pydict \<Rightarrow> string" where
  "key_of business =
     (let phone = strip (str_of business ''phone_number'')
      in if phone \<noteq> [] then phone else strip (lower (str_of business ''business_name'')))"

text \<open>The records that open a new non-empty key, in order.\<close>

fun first_by_key :: "('a \<Rightarrow> string) \<Rightarrow> string set \<Rightarrow> 'a list \<Rightarrow> 'a list" where
  "first_by_key key seen [] = []"
| "first_by_key key seen (b # bs) =
     (if key b \<noteq> [] \<and> key b \<notin> seen then b # first_by_key key (insert (key b) seen) bs
      else first_by_key key seen bs)"

text \<open>The key the specification describes: the digits of the phone number.\<close>

definition phone_digits :: "pydict \<Rightarrow> string" where
  "phone_digits business = filter isdigit (str_of business ''phone_number'')"

definition dashed_phone_record :: pydict where
  "dashed_phone_record =
     [(''business_name'', PStr ''Acme Fiber Internet''), (''phone_number'', PStr ''555-123-4567'')]"

definition bracket_phone_record :: pydict where
  "bracket_phone_record =
     [(''business_name'', PStr ''Acme Fiber''), (''phone_number'', PStr ''(555) 123-4567'')]"

definition same_phone_record :: pydict where
  "same_phone_record =
     [(''business_name'', PStr ''ACME Fiber, Inc.''), (''phone_number'', PStr '' 555-123-4567 '')]"

text \<open>Two records without a phone number whose names differ in case only; the
  letter U+00C9 is the capital of U+00E9.\<close>

definition capital_name_record :: pydict where
  "capital_name_record = [(''business_name'', PStr (''CAF'' @ [CHR 0xC9] @ '' NET''))]"

definition small_name_record :: pydict where
  "small_name_record =
     [(''business_name'', PStr (''caf'' @ [CHR 0xE9] @ '' net '')), (''phone_number'', PStr [])]"

section \<open>ISPScraper: deduplication by name similarity\<close>

text \<open>
  The model of \<^verbatim>\<open>ISPScraper._deduplicate_businesses\<close>
  (src/scrapers/isp\_scraper.py).  The ratios are quotients of word counts
  compared with the literal 0.6; a quotient of two counts exceeds 0.6 in double
  precision exactly when it does as a rational, for every count below
  \<open>10\<^sup>1\<^sup>5\<close>, so the model compares rationals.
\<close>

text \<open>\<^verbatim>\<open>re.sub(r'[^\w\s]', '', name)\<close>.\<close>

definition normalize_name :: "string \<Rightarrow> string" where
  "normalize_name name = filter (\<lambda>c. isword c \<or> isspace c) name"

text \<open>The test of the inner loop on the two word sets.\<close>

definition significant_overlap :: "string set \<Rightarrow> string set \<Rightarrow> bool" where
  "significant_overlap name_words seen_words =
     (let overlap = card (name_words \<inter> seen_words)
      in overlap \<ge> 2
         \<and> ((of_nat overlap / of_nat (card name_words) :: rat) > 0.6
            \<or> (of_nat overlap / of_nat (card seen_words) :: rat) > 0.6))"

definition is_duplicate :: "string set \<Rightarrow> string \<Rightarrow> bool" where
  "is_duplicate seen_names name_normalized =
     (\<exists>seen_name \<in> seen_names.
        significant_overlap (set (split_ws name_normalized)) (set (split_ws seen_name)))"

fun isp_dedup_loop :: "string set \<Rightarrow> pydict list \<Rightarrow> pydict list \<Rightarrow> exn + pydict list" where
  "isp_dedup_loop seen_names unique_businesses [] = Inr unique_businesses"
| "isp_dedup_loop seen_names unique_businesses (business # rest) =
     bind_exn (get_str business ''business_name'') (\<lambda>n.
       let name = strip (lower n);
           name_normalized = normalize_name name
       in if \<not> is_duplicate seen_names name_normalized
          then isp_dedup_loop (insert name_normalized seen_names)
                 (unique_businesses @ [business]) rest
          else isp_dedup_loop seen_names unique_businesses rest)"

definition isp_deduplicate_businesses :: "pydict list \<Rightarrow> exn + pydict list" where
  "isp_deduplicate_businesses businesses =
     (if businesses = [] then Inr [] else isp_dedup_loop {} [] businesses)"

text \<open>The normalised name of a record whose name is a string.\<close>

definition normalized_name_of :: "pydict \<Rightarrow> string" where
  "normalized_name_of business =
     normalize_name (strip (lower (str_of business ''business_name'')))"

text \<open>Two records are taken for the same business.\<close>

definition same_business :: "pydict \<Rightarrow> pydict \<Rightarrow> bool" where
  "same_business a b =
     significant_overlap (set (split_ws (normalized_name_of b)))
       (set (split_ws (normalized_name_of a)))"

definition named :: "pydict \<Rightarrow> bool" where
  "named business = str_field business ''business_name''"

text \<open>The records that no earlier retained record matches, in order.\<close>

fun retain_unmatched :: "string set \<Rightarrow> pydict list \<Rightarrow> pydict list" where
  "retain_unmatched seen_names [] = []"
| "retain_unmatched seen_names (b # bs) =
     (if \<not> is_duplicate seen_names (normalized_name_of b)
      then b # retain_unmatched (insert (normalized_name_of b) seen_names) bs
      else retain_unmatched seen_names bs)"

definition spectrum_record :: pydict where
  "spectrum_record =
     [(''business_name'', PStr ''Spectrum Internet Services of Raleigh''),
      (''phone_number'', PStr ''(855) 243-8892'')]"

definition spectrum_again_record :: pydict where
  "spectrum_again_record =
     [(''business_name'', PStr ''Spectrum Internet Services, Raleigh NC''),
      (''website'', PStr ''https://www.spectrum.com'')]"

text \<open>Two names that differ in one letter, U+00E9 and U+00EB, and a record
  whose name is \<^verbatim>\<open>None\<close>.\<close>

definition acute_name_record :: pydict where
  "acute_name_record = [(''business_name'', PStr (''Zo'' @ [CHR 0xE9] @ '' Net''))]"

definition diaeresis_name_record :: pydict where
  "diaeresis_name_record = [(''business_name'', PStr (''Zo'' @ [CHR 0xEB] @ '' Net''))]"

definition nameless_record :: pydict where
  "nameless_record = [(''business_name'', PNone), (''phone_number'', PStr ''(855) 243-8892'')]"

section \<open>IndustryClassifierTool: NAICS classification\<close>

text \<open>
  The model of \<^verbatim>\<open>src/tools/industry_classifier_tool.py\<close>.  A classification is
  the dictionary the tool returns.  The AI capability is a function from the
  business information to its answer, a dictionary, or to an exception.  The
  text of an exception, which the tool quotes in its results, is given by the
  parameter \<open>msg\<close>.  The counters of \<^verbatim>\<open>self.stats\<close> are not part of any result and
  are left out; the running average divides by the number of classifications,
  which is positive once \<^verbatim>\<open>classify\<close> has been entered.
\<close>

definition NAICS_MAPPINGS :: "(string \<times> string) list" where
  "NAICS_MAPPINGS =
     [(''software'', ''541511''), (''technology'', ''541511''), (''tech'', ''541511''),
      (''computer'', ''541511''), (''it services'', ''541511''),
      (''web development'', ''541511''), (''app development'', ''541511''),
      (''saas'', ''541511''), (''medical'', ''621111''), (''healthcare'', ''621111''),
      (''hospital'', ''622110''), (''clinic'', ''621111''), (''doctor'', ''621111''),
      (''physician'', ''621111''), (''dentist'', ''621210''), (''pharmacy'', ''446110''),
      (''retail'', ''441000''), (''store'', ''441000''), (''shop'', ''441000''),
      (''clothing'', ''448110''), (''grocery'', ''445110''), (''supermarket'', ''445110''),
      (''restaurant'', ''722511''), (''food service'', ''722511''), (''cafe'', ''722513''),
      (''bar'', ''722410''), (''consulting'', ''541611''), (''law'', ''541110''),
      (''legal'', ''541110''), (''attorney'', ''541110''), (''accounting'', ''541211''),
      (''cpa'', ''541211''), (''real estate'', ''531210''), (''insurance'', ''524210''),
      (''financial'', ''522110''), (''bank'', ''522110''), (''construction'', ''236220''),
      (''building'', ''236220''), (''contractor'', ''236220''),
      (''manufacturing'', ''311000''), (''factory'', ''311000''), (''automotive'', ''441110''),
      (''auto repair'', ''811111''), (''transportation'', ''484110''),
      (''trucking'', ''484121''), (''logistics'', ''484110''), (''shipping'', ''484110''),
      (''delivery'', ''492210''), (''education'', ''611110''), (''school'', ''611110''),
      (''university'', ''611310''), (''college'', ''611310''), (''training'', ''611430''),
      (''entertainment'', ''711130''), (''fitness'', ''713940''), (''gym'', ''713940''),
      (''sports'', ''713940''), (''hotel'', ''721110''), (''lodging'', ''721110''),
      (''agriculture'', ''111998''), (''farming'', ''111998''), (''farm'', ''111998''),
      (''landscaping'', ''561730''), (''energy'', ''221112''), (''utilities'', ''221310''),
      (''solar'', ''237130''), (''renewable'', ''237130''), (''nonprofit'', ''813211''),
      (''charity'', ''813211''), (''foundation'', ''813211'')]"

definition NAICS_DESCRIPTIONS :: "(string \<times> string) list" where
  "NAICS_DESCRIPTIONS =
     [(''541511'', ''Custom Computer Programming Services''),
      (''621111'', ''Offices of Physicians (except Mental Health Specialists)''),
      (''622110'', ''General Medical and Surgical Hospitals''),
      (''621210'', ''Offices of Dentists''), (''446110'', ''Pharmacies and Drug Stores''),
      (''441000'', ''Motor Vehicle and Parts Dealers''),
      (''448110'', ''Men's Clothing Stores''),
      (''445110'', ''Supermarkets and Other Grocery (except Convenience) Stores''),
      (''722511'', ''Full-Service Restaurants''),
      (''722513'', ''Limited-Service Restaurants''),
      (''722410'', ''Drinking Places (Alcoholic Beverages)''),
      (''541611'', ''Administrative Management and General Management Consulting Services''),
      (''541110'', ''Offices of Lawyers''),
      (''541211'', ''Offices of Certified Public Accountants''),
      (''531210'', ''Offices of Real Estate Agents and Brokers''),
      (''524210'', ''Insurance Agencies and Brokerages''),
      (''522110'', ''Commercial Banking''),
      (''236220'', ''Commercial and Institutional Building Construction''),
      (''311000'', ''Food Manufacturing''), (''441110'', ''New Car Dealers''),
      (''811111'', ''General Automotive Repair''),
      (''484110'', ''General Freight Trucking, Local''),
      (''484121'', ''General Freight Trucking, Long-Distance, Truckload''),
      (''492210'', ''Local Messengers and Local Delivery''),
      (''611110'', ''Elementary and Secondary Schools''),
      (''611310'', ''Colleges, Universities, and Professional Schools''),
      (''611430'', ''Professional and Management Development Training''),
      (''711130'', ''Musical Groups and Artists''),
      (''713940'', ''Fitness and Recreational Sports Centers''),
      (''721110'', ''Hotels (except Casino Hotels) and Motels''),
      (''111998'', ''All Other Miscellaneous Crop Farming''),
      (''561730'', ''Landscaping Services''),
      (''221112'', ''Fossil Fuel Electric Power Generation''),
      (''221310'', ''Water Supply and Irrigation Systems''),
      (''237130'', ''Power and Communication Line and Related Structures Construction''),
      (''813211'', ''Grantmaking Foundations''), (''999999'', ''Unclassified Establishments'')]"

text \<open>\<^verbatim>\<open>d.get(k, default)\<close>.\<close>

definition get_default :: "pydict \<Rightarrow> string \<Rightarrow> pyval \<Rightarrow> pyval" where
  "get_default d k dflt = (case map_of d k of None \<Rightarrow> dflt | Some v \<Rightarrow> v)"

text \<open>\<^verbatim>\<open>sep.join(values)\<close>: an item that is not a string raises \<^verbatim>\<open>TypeError\<close>.\<close>

fun strings_of :: "pyval list \<Rightarrow> exn + string list" where
  "strings_of [] = Inr []"
| "strings_of (PStr s # vs) = bind_exn (strings_of vs) (\<lambda>ss. Inr (s # ss))"
| "strings_of (v # vs) = Inl TypeError"

definition join_values :: "string \<Rightarrow> pyval list \<Rightarrow> exn + string" where
  "join_values sep vs = bind_exn (strings_of vs) (\<lambda>ss. Inr (join sep ss))"

definition text_keys :: "string list" where
  "text_keys = [''company_name'', ''business_description'', ''industry'', ''category'',
                ''website_content'']"

text \<open>The decimal text of a number, for \<^verbatim>\<open>str\<close> and formatted strings.\<close>

fun digits_of :: "nat \<Rightarrow> string" where
  "digits_of n = (if n < 10 then [''0123456789'' ! n]
                  else digits_of (n div 10) @ [''0123456789'' ! (n mod 10)])"

definition str_of_int :: "int \<Rightarrow> string" where
  "str_of_int i = (if i < 0 then ''-'' @ digits_of (nat (- i)) else digits_of (nat i))"

text \<open>The score of one keyword against the combined text: 10 for the keyword
  as a phrase and 3 for each of its words found in the text.\<close>

definition keyword_score :: "string \<Rightarrow> string \<Rightarrow> int" where
  "keyword_score combined_text keyword =
     (let score = 0;
          score = (if contains combined_text keyword then score + 10 else score)
      in foldl (\<lambda>score word. if contains combined_text word then score + 3 else score)
           score (split_ws keyword))"

text \<open>\<^verbatim>\<open>keyword_scores.get(naics_code, 0)\<close>.\<close>

definition get0 :: "(string \<times> int) list \<Rightarrow> string \<Rightarrow> int" where
  "get0 keyword_scores naics_code =
     (case map_of keyword_scores naics_code of None \<Rightarrow> 0 | Some v \<Rightarrow> v)"

text \<open>One round of the loop over \<^verbatim>\<open>NAICS_MAPPINGS.items()\<close>.\<close>

definition score_step :: "string \<Rightarrow> (string \<times> int) list \<Rightarrow> string \<times> string \<Rightarrow> (string \<times> int) list" where
  "score_step combined_text keyword_scores entry =
     (let keyword = fst entry;
          naics_code = snd entry;
          score = keyword_score combined_text keyword
      in if score > 0
         then dict_set keyword_scores naics_code (get0 keyword_scores naics_code + score)
         else keyword_scores)"

definition score_keywords :: "string \<Rightarrow> (string \<times> int) list" where
  "score_keywords combined_text = foldl (score_step combined_text) [] NAICS_MAPPINGS"

text \<open>\<^verbatim>\<open>max(keyword_scores, key=keyword_scores.get)\<close>: the first key, in insertion
  order, with the greatest value.\<close>

definition best_entry :: "string \<times> int \<Rightarrow> (string \<times> int) list \<Rightarrow> string \<times> int" where
  "best_entry first others = foldl (\<lambda>best kv. if snd kv > snd best then kv else best) first others"

definition keyword_error_result :: "(exn \<Rightarrow> string) \<Rightarrow> exn \<Rightarrow> pydict" where
  "keyword_error_result msg e =
     [(''success'', PBool False),
      (''naics_code'', PStr ''999999''),
      (''industry_description'', PStr ''Classification error''),
      (''confidence_score'', PInt 0),
      (''reasoning'', PStr (''Keyword classification error: '' @ msg e)),
      (''source'', PStr ''error''),
      (''model'', PStr ''keyword_matching'')]"

definition no_match_result :: pydict where
  "no_match_result =
     [(''success'', PBool True),
      (''naics_code'', PStr ''999999''),
      (''industry_description'', PStr ''Unclassified Establishments''),
      (''confidence_score'', PInt 20),
      (''reasoning'', PStr ''No clear industry indicators found''),
      (''source'', PStr ''keyword''),
      (''model'', PStr ''keyword_matching'')]"

definition match_result :: "string \<Rightarrow> int \<Rightarrow> pydict" where
  "match_result best_naics total_score =
     (let confidence = min (total_score * 5) 85
      in [(''success'', PBool True),
          (''naics_code'', PStr best_naics),
          (''industry_description'',
             PStr (case map_of NAICS_DESCRIPTIONS best_naics of
                     None \<Rightarrow> ''Unknown Industry'' | Some d \<Rightarrow> d)),
          (''confidence_score'', PInt confidence),
          (''reasoning'',
             PStr (''Keyword-based classification (score: '' @ str_of_int total_score @ '')'')),
          (''source'', PStr ''keyword''),
          (''model'', PStr ''keyword_matching'')])"

text \<open>The body of the \<^verbatim>\<open>try\<close> in \<^verbatim>\<open>_classify_with_keywords\<close>.\<close>

definition keyword_body :: "pydict \<Rightarrow> exn + pydict" where
  "keyword_body business_info =
     (let text_fields = map (\<lambda>k. get_default business_info k (PStr [])) text_keys
      in case join_values '' '' text_fields of
           Inl e \<Rightarrow> Inl e
         | Inr joined \<Rightarrow>
             (let combined_text = lower joined;
                  keyword_scores = score_keywords combined_text
              in Inr (case keyword_scores of
                        [] \<Rightarrow> no_match_result
                      | first # others \<Rightarrow>
                          (let best = best_entry first others
                           in match_result (fst best) (snd best)))))"

text \<open>\<^verbatim>\<open>IndustryClassifierTool._classify_with_keywords\<close>.\<close>

definition classify_with_keywords :: "(exn \<Rightarrow> string) \<Rightarrow> pydict \<Rightarrow> pydict" where
  "classify_with_keywords msg business_info =
     (case keyword_body business_info of
        Inl e \<Rightarrow> keyword_error_result msg e
      | Inr result \<Rightarrow> result)"

text \<open>The patterns \<^verbatim>\<open>^\d{6}$\<close> and \<^verbatim>\<open>\b\d{6}\b\<close>.\<close>

definition six_digits :: "item list" where
  "six_digits = [Bol, rep_times 6 re_digit, Eol]"

definition six_digit_word :: "item list" where
  "six_digit_word = [WordB, rep_times 6 re_digit, WordB]"

text \<open>The validation of the code the AI returned.  \<^verbatim>\<open>re.match\<close> raises
  \<^verbatim>\<open>TypeError\<close> on a value that is not a string.\<close>

definition validate_naics_code :: "pyval \<Rightarrow> exn + string" where
  "validate_naics_code naics_code =
     (case naics_code of
        PStr code \<Rightarrow>
          Inr (if \<not> re_match six_digits code then
                 (case search_from six_digit_word None code of
                    Some naics_match \<Rightarrow> matched_text naics_match
                  | None \<Rightarrow> ''999999'')
               else code)
      | _ \<Rightarrow> Inl TypeError)"

text \<open>\<^verbatim>\<open>min(value, 100)\<close>.\<close>

definition min_100 :: "pyval \<Rightarrow> exn + pyval" where
  "min_100 v =
     (case v of
        PInt n \<Rightarrow> Inr (PInt (min n 100))
      | PBool b \<Rightarrow> Inr (PBool b)
      | _ \<Rightarrow> Inl TypeError)"

text \<open>The body of the \<^verbatim>\<open>try\<close> in \<^verbatim>\<open>_classify_with_ai\<close>.\<close>

definition ai_body :: "(pydict \<Rightarrow> exn + pydict) \<Rightarrow> pydict \<Rightarrow> exn + pydict" where
  "ai_body llm business_info =
     bind_exn (llm business_info) (\<lambda>result.
     bind_exn (validate_naics_code (get_default result ''naics_code'' (PStr ''000000'')))
       (\<lambda>naics_code.
          let industry_description = get_default result ''industry_description'' (PStr ''Unknown'');
              industry_description = (case map_of NAICS_DESCRIPTIONS naics_code of
                                        None \<Rightarrow> industry_description
                                      | Some d \<Rightarrow> PStr d)
          in bind_exn (min_100 (get_default result ''confidence_score'' (PInt 0))) (\<lambda>confidence.
               Inr [(''success'', get_default result ''success'' (PBool False)),
                    (''naics_code'', PStr naics_code),
                    (''industry_description'', industry_description),
                    (''confidence_score'', confidence),
                    (''reasoning'', get_default result ''reasoning'' (PStr [])),
                    (''source'', get_default result ''source'' (PStr ''ai'')),
                    (''model'', get_default result ''model'' (PStr ''unknown''))])))"

text \<open>\<^verbatim>\<open>IndustryClassifierTool._classify_with_ai\<close>.\<close>

definition classify_with_ai :: "(exn \<Rightarrow> string) \<Rightarrow> (pydict \<Rightarrow> exn + pydict) \<Rightarrow> pydict \<Rightarrow> pydict" where
  "classify_with_ai msg llm business_info =
     (case ai_body llm business_info of
        Inl e \<Rightarrow> [(''success'', PBool False), (''error'', PStr (msg e))]
      | Inr result \<Rightarrow> result)"

text \<open>\<^verbatim>\<open>d[k]\<close>.\<close>

definition subscript :: "pydict \<Rightarrow> string \<Rightarrow> exn + pyval" where
  "subscript d k = (case map_of d k of None \<Rightarrow> Inl KeyError | Some v \<Rightarrow> Inr v)"

text \<open>\<^verbatim>\<open>value > 70\<close>.\<close>

definition exceeds_70 :: "pyval \<Rightarrow> exn + bool" where
  "exceeds_70 v =
     (case v of
        PInt n \<Rightarrow> Inr (n > 70)
      | PBool b \<Rightarrow> Inr False
      | _ \<Rightarrow> Inl TypeError)"

text \<open>\<^verbatim>\<open>ai_result['success'] and ai_result['confidence_score'] > 70\<close>.\<close>

definition ai_accepted :: "pydict \<Rightarrow> exn + bool" where
  "ai_accepted ai_result =
     bind_exn (subscript ai_result ''success'') (\<lambda>success.
       if \<not> truthy success then Inr False
       else bind_exn (subscript ai_result ''confidence_score'') exceeds_70)"

text \<open>The body of the \<^verbatim>\<open>try\<close> in \<^verbatim>\<open>classify\<close>; \<open>None\<close> is a tool without an AI
  capability.\<close>

definition classify_body ::
  "(exn \<Rightarrow> string) \<Rightarrow> (pydict \<Rightarrow> exn + pydict) option \<Rightarrow> pydict \<Rightarrow> exn + pydict" where
  "classify_body msg llm_client business_info =
     (case llm_client of
        None \<Rightarrow> Inr (classify_with_keywords msg business_info)
      | Some llm \<Rightarrow>
          (let ai_result = classify_with_ai msg llm business_info
           in bind_exn (ai_accepted ai_result) (\<lambda>accepted.
                if accepted then Inr ai_result
                else Inr (classify_with_keywords msg business_info))))"

definition failed_result :: "(exn \<Rightarrow> string) \<Rightarrow> exn \<Rightarrow> pydict" where
  "failed_result msg e =
     [(''success'', PBool False),
      (''naics_code'', PStr ''999999''),
      (''industry_description'', PStr ''Classification failed''),
      (''confidence_score'', PInt 0),
      (''reasoning'', PStr (''Classification failed: '' @ msg e)),
      (''source'', PStr ''error''),
      (''model'', PStr ''none'')]"

text \<open>\<^verbatim>\<open>IndustryClassifierTool.classify\<close>.\<close>

definition classify ::
  "(exn \<Rightarrow> string) \<Rightarrow> (pydict \<Rightarrow> exn + pydict) option \<Rightarrow> pydict \<Rightarrow> pydict" where
  "classify msg llm_client business_info =
     (case classify_body msg llm_client business_info of
        Inl e \<Rightarrow> failed_result msg e
      | Inr result \<Rightarrow> result)"

text \<open>The points of one keyword, and the total of a code over the keywords of the
  registry that map to it.\<close>

definition keyword_points :: "string \<Rightarrow> string \<Rightarrow> int" where
  "keyword_points combined_text keyword =
     pts 10 (contains combined_text keyword)
     + 3 * int (length (filter (contains combined_text) (split_ws keyword)))"

definition part_total :: "(string \<times> string) list \<Rightarrow> string \<Rightarrow> string \<Rightarrow> int" where
  "part_total entries combined_text naics_code =
     sum_list (map (\<lambda>entry. keyword_points combined_text (fst entry))
                 (filter (\<lambda>entry. snd entry = naics_code) entries))"

definition code_total :: "string \<Rightarrow> string \<Rightarrow> int" where
  "code_total combined_text naics_code = part_total NAICS_MAPPINGS combined_text naics_code"

text \<open>The combined text of a record whose text fields are strings.\<close>

definition combined_text_of :: "pydict \<Rightarrow> string" where
  "combined_text_of business_info = lower (join '' '' (map (str_of business_info) text_keys))"

text \<open>The AI result that \<^verbatim>\<open>classify\<close> returns: the result of \<^verbatim>\<open>_classify_with_ai\<close>
  when a capability is present and the result passes the test
  \<^verbatim>\<open>ai_result['success'] and ai_result['confidence_score'] > 70\<close>.\<close>

definition accepted_ai_result ::
  "(exn \<Rightarrow> string) \<Rightarrow> (pydict \<Rightarrow> exn + pydict) option \<Rightarrow> pydict \<Rightarrow> pydict option" where
  "accepted_ai_result msg llm_client business_info =
     (case llm_client of
        None \<Rightarrow> None
      | Some llm \<Rightarrow>
          (let ai_result = classify_with_ai msg llm business_info
           in if ai_accepted ai_result = Inr True then Some ai_result else None))"

text \<open>The invariant of the scoring loop: the codes are distinct and every
  accumulated score is positive.\<close>

definition positive :: "(string \<times> int) list \<Rightarrow> bool" where
  "positive keyword_scores =
     (distinct (map fst keyword_scores) \<and> (\<forall>kv \<in> set keyword_scores. 0 < snd kv))"

definition software_record :: pydict where
  "software_record =
     [(''company_name'', PStr ''Acme Software''),
      (''business_description'', PStr ''Custom software and web development, IT services'')]"

definition untyped_record :: pydict where
  "untyped_record = [(''company_name'', PNone), (''business_description'', PStr ''software'')]"

text \<open>An AI capability whose answer ends the code with a line break.\<close>

definition line_break_llm :: "pydict \<Rightarrow> exn + pydict" where
  "line_break_llm business_info =
     Inr [(''success'', PBool True),
          (''naics_code'', PStr (''541511'' @ [newline])),
          (''industry_description'', PStr ''Custom Computer Programming Services''),
          (''confidence_score'', PInt 90),
          (''reasoning'', PStr ''software company''),
          (''source'', PStr ''local''),
          (''model'', PStr ''llama3'')]"

text \<open>An AI capability that labels a confident answer with the source
  \<^verbatim>\<open>error\<close>, and one whose call raises.\<close>

definition error_label_llm :: "pydict \<Rightarrow> exn + pydict" where
  "error_label_llm business_info =
     Inr [(''success'', PBool True),
          (''naics_code'', PStr ''541511''),
          (''industry_description'', PStr ''Custom Computer Programming Services''),
          (''confidence_score'', PInt 90),
          (''reasoning'', PStr ''software company''),
          (''source'', PStr ''error''),
          (''model'', PStr ''llama3'')]"

definition failing_llm :: "pydict \<Rightarrow> exn + pydict" where
  "failing_llm business_info = Inl OtherError"


section \<open>IndustryClassifier: industry by keyword patterns\<close>

text \<open>
  The model of \<^verbatim>\<open>src/processors/industry_classifier.py\<close>.  The patterns are
  searched with \<^verbatim>\<open>re.IGNORECASE\<close>: a letter of the pattern matches both of its
  cases.  The normalised score is a quotient of a sum of weights and a number
  of patterns, at most 8; on such quotients the comparison and ten times the
  value truncated to a whole number are the same in double precision and in
  exact arithmetic, so the model uses rationals.  No operation of \<^verbatim>\<open>classify\<close>
  raises on the values of the model (a formatted string accepts every value),
  so its \<^verbatim>\<open>except\<close> branch, which returns the default classification, is never
  taken.
\<close>

definition ignore_case :: "char \<Rightarrow> char \<Rightarrow> bool" where
  "ignore_case a c = (lower_char c = lower_char a)"

definition ilit :: "string \<Rightarrow> item list" where
  "ilit s = map (\<lambda>a. rep_once (ignore_case a)) s"

text \<open>\<^verbatim>\<open>IndustryClassifier._build_keyword_patterns\<close>.\<close>

definition keyword_patterns :: "(string \<times> (item list \<times> int) list) list" where
  "keyword_patterns =
     [
      (''Internet Service Provider'',
         [(WordB # ilit ''isp'' @ [WordB], 5),
          (ilit ''internet service'', 5),
          (ilit ''broadband'', 4),
          (ilit ''fiber optic'', 4),
          (ilit ''telecommunications'', 3),
          (ilit ''cable internet'', 4),
          (ilit ''wireless internet'', 4),
          (ilit ''network provider'', 3)]),
      (''Telecommunications'',
         [(ilit ''telecommunication'' @ [rep_opt (ignore_case (CHR ''s''))], 5),
          (ilit ''telecom'', 4),
          (ilit ''phone service'', 3),
          (ilit ''wireless'', 3),
          (ilit ''cellular'', 3),
          (ilit ''mobile service'', 3)]),
      (''Software Development'',
         [(ilit ''software development'', 5),
          (ilit ''programming'', 4),
          (ilit ''application development'', 4),
          (ilit ''web development'', 4),
          (ilit ''mobile app'', 3),
          (ilit ''custom software'', 4)]),
      (''IT Services'',
         [(ilit ''it services'', 5),
          (ilit ''information technology'', 4),
          (ilit ''computer support'', 3),
          (ilit ''network services'', 3),
          (ilit ''tech support'', 3),
          (ilit ''managed services'', 4)]),
      (''Medical Practice'',
         [(ilit ''medical'', 4),
          (ilit ''physician'', 5),
          (ilit ''doctor'', 4),
          (ilit ''clinic'', 4),
          (ilit ''healthcare'', 3),
          (ilit ''dental'', 4),
          (ilit ''dentist'', 5)]),
      (''Legal Services'',
         [(ilit ''law firm'', 5),
          (ilit ''attorney'', 5),
          (ilit ''lawyer'', 5),
          (ilit ''legal services'', 5),
          (ilit ''paralegal'', 3)]),
      (''Real Estate'',
         [(ilit ''real estate'', 5),
          (ilit ''realtor'', 5),
          (ilit ''property management'', 4),
          (ilit ''home sales'', 3),
          (ilit ''commercial property'', 4)]),
      (''Restaurant'',
         [(ilit ''restaurant'', 5),
          (ilit ''food service'', 4),
          (ilit ''dining'', 3),
          (ilit ''cafe'', 4),
          (ilit ''bistro'', 4),
          (ilit ''eatery'', 4)]),
      (''Retail'',
         [(ilit ''retail'', 4),
          (ilit ''store'', 3),
          (ilit ''shop'', 3),
          (ilit ''sales'', 2),
          (ilit ''merchandise'', 3)]),
      (''Manufacturing'',
         [(ilit ''manufacturing'', 5),
          (ilit ''factory'', 4),
          (ilit ''production'', 3),
          (ilit ''industrial'', 3),
          (ilit ''assembly'', 3)]),
      (''Construction'',
         [(ilit ''construction'', 5),
          (ilit ''contractor'', 4),
          (ilit ''building'', 3),
          (ilit ''renovation'', 3),
          (ilit ''remodeling'', 3)]),
      (''Consulting'',
         [(ilit ''consulting'', 5),
          (ilit ''consultant'', 4),
          (ilit ''advisory'', 3),
          (ilit ''business services'', 3)]),
      (''Accounting'',
         [(ilit ''accounting'', 5),
          (ilit ''accountant'', 5),
          (ilit ''cpa'', 5),
          (ilit ''bookkeeping'', 4),
          (ilit ''tax preparation'', 4)]),
      (''Insurance'',
         [(ilit ''insurance'', 5),
          (ilit ''coverage'', 3),
          (ilit ''policy'', 3),
          (ilit ''claims'', 3)])
     ]"

text \<open>\<^verbatim>\<open>IndustryClassifier._build_naics_mapping\<close>: the code and the description of
  an industry.\<close>

definition naics_mapping :: "(string \<times> (string \<times> string)) list" where
  "naics_mapping =
     [
      (''Internet Service Provider'', (''517311'', ''Wired Telecommunications Carriers'')),
      (''Telecommunications'', (''517000'', ''Telecommunications'')),
      (''Software Development'', (''541511'', ''Custom Computer Programming Services'')),
      (''IT Services'', (''541512'', ''Computer Systems Design Services'')),
      (''Computer Services'', (''541510'', ''Computer Systems Design and Related Services'')),
      (''Medical Practice'', (''621111'', ''Offices of Physicians (except Mental Health Specialists)'')),
      (''Legal Services'', (''541110'', ''Offices of Lawyers'')),
      (''Accounting'', (''541211'', ''Offices of Certified Public Accountants'')),
      (''Real Estate'', (''531210'', ''Offices of Real Estate Agents and Brokers'')),
      (''Insurance'', (''524210'', ''Insurance Agencies and Brokerages'')),
      (''Banking'', (''522110'', ''Commercial Banking'')),
      (''Restaurant'', (''722511'', ''Full-Service Restaurants'')),
      (''Retail'', (''441000'', ''Motor Vehicle and Parts Dealers'')),
      (''Manufacturing'', (''311000'', ''Food Manufacturing'')),
      (''Construction'', (''236100'', ''Residential Building Construction'')),
      (''Consulting'', (''541611'', ''Administrative Management and General Management Consulting Services'')),
      (''Marketing Services'', (''541810'', ''Advertising Agencies'')),
      (''Engineering Services'', (''541330'', ''Engineering Services''))
     ]"

text \<open>The categories of \<^verbatim>\<open>IndustryClassifier._get_industry_category\<close>.\<close>

definition categories :: "(string \<times> string list) list" where
  "categories =
     [
      (''Technology'',
         [''Software Development'', ''Internet Service Provider'', ''Computer Services'',
          ''IT Services'', ''Telecommunications'', ''Data Processing'']),
      (''Healthcare'',
         [''Medical Practice'', ''Healthcare Services'', ''Pharmaceutical'',
          ''Medical Equipment'', ''Dental Services'']),
      (''Financial Services'',
         [''Banking'', ''Insurance'', ''Investment Services'', ''Real Estate'',
          ''Financial Planning'', ''Accounting'']),
      (''Professional Services'',
         [''Legal Services'', ''Consulting'', ''Marketing Services'', ''Engineering Services'',
          ''Architectural Services'']),
      (''Manufacturing'',
         [''Manufacturing'', ''Construction'', ''Industrial Services'', ''Automotive'',
          ''Aerospace'']),
      (''Retail/Commerce'',
         [''Retail'', ''E-commerce'', ''Wholesale'', ''Food Services'', ''Restaurant'',
          ''Hospitality'']),
      (''Energy/Utilities'',
         [''Utilities'', ''Energy Services'', ''Oil and Gas'', ''Renewable Energy'',
          ''Environmental Services''])
     ]"

text \<open>The inner loop over the patterns of one industry: the sum of the weights
  of the patterns found, and their number.\<close>

definition pattern_score :: "string \<Rightarrow> (item list \<times> int) list \<Rightarrow> int \<times> nat" where
  "pattern_score combined_text patterns =
     foldl (\<lambda>(score, matches) (pattern, weight).
              if re_search pattern combined_text then (score + weight, matches + 1)
              else (score, matches))
       (0, 0) patterns"

text \<open>One round of the loop of \<^verbatim>\<open>_classify_by_keywords\<close> over the industries.\<close>

definition industry_step ::
  "string \<Rightarrow> string option \<times> rat \<Rightarrow> string \<times> (item list \<times> int) list \<Rightarrow> string option \<times> rat" where
  "industry_step combined_text state entry =
     (let (best_match, highest_score) = state;
          (industry, patterns) = entry;
          (score, matches) = pattern_score combined_text patterns
      in if matches > 0 then
           (let normalized_score = of_int score / of_nat (length patterns)
            in if normalized_score > highest_score then (Some industry, normalized_score)
               else (best_match, highest_score))
         else (best_match, highest_score))"

text \<open>\<^verbatim>\<open>IndustryClassifier._classify_by_keywords\<close>.\<close>

definition classify_by_keywords :: "string \<Rightarrow> string \<times> string \<times> int" where
  "classify_by_keywords combined_text =
     (let (best_match, highest_score) =
            foldl (industry_step combined_text) (None, 0) keyword_patterns
      in case best_match of
           None \<Rightarrow> (''Unknown'', ''UNKNOWN'', 1)
         | Some industry \<Rightarrow>
             (if industry \<noteq> [] then
                (let naics_code = (case map_of naics_mapping industry of
                                     None \<Rightarrow> ''UNKNOWN'' | Some entry \<Rightarrow> fst entry);
                     confidence = min 10 \<lfloor>highest_score * 10\<rfloor>
                 in (industry, naics_code, confidence))
              else (''Unknown'', ''UNKNOWN'', 1)))"

text \<open>\<^verbatim>\<open>IndustryClassifier._find_secondary_industries\<close>.\<close>

definition find_secondary_industries :: "string \<Rightarrow> string \<Rightarrow> string list" where
  "find_secondary_industries combined_text primary =
     take 3
       (map fst
          (filter (\<lambda>(industry, patterns).
                     industry \<noteq> primary \<and> fst (pattern_score combined_text patterns) \<ge> 2)
             keyword_patterns))"

text \<open>\<^verbatim>\<open>IndustryClassifier._get_industry_category\<close>.\<close>

definition get_industry_category :: "string \<Rightarrow> string" where
  "get_industry_category industry =
     (case filter (\<lambda>(category, industries). industry \<in> set industries) categories of
        [] \<Rightarrow> ''Other''
      | (category, industries) # others \<Rightarrow> category)"

text \<open>The text of a value in a formatted string.\<close>

definition py_str :: "pyval \<Rightarrow> string" where
  "py_str v =
     (case v of
        PNone \<Rightarrow> ''None''
      | PBool b \<Rightarrow> (if b then ''True'' else ''False'')
      | PInt n \<Rightarrow> str_of_int n
      | PStr s \<Rightarrow> s)"

text \<open>The combined text of \<^verbatim>\<open>IndustryClassifier.classify\<close>.\<close>

definition industry_text :: "pydict \<Rightarrow> string" where
  "industry_text business_data =
     (let business_name = get_default business_data ''business_name'' (PStr []);
          description = get_default business_data ''business_description'' (PStr []);
          existing_industry = get_default business_data ''industry'' (PStr [])
      in lower (py_str business_name @ '' '' @ py_str description @ '' ''
                @ py_str existing_industry))"

text \<open>\<^verbatim>\<open>IndustryClassifier.classify\<close>.\<close>

definition industry_classify :: "pydict \<Rightarrow> pydict" where
  "industry_classify business_data =
     (let combined_text = industry_text business_data;
          (primary_industry, naics_code, confidence) = classify_by_keywords combined_text;
          classification =
            [(''industry_primary'', PStr primary_industry),
             (''naics_code'', PStr naics_code),
             (''industry_confidence'', PInt confidence),
             (''industry_category'', PStr (get_industry_category primary_industry)),
             (''classification_method'', PStr ''keyword_matching'')];
          secondary_industries = find_secondary_industries combined_text primary_industry
      in if secondary_industries \<noteq> []
         then dict_set classification ''industry_secondary''
                (PStr (join '', '' secondary_industries))
         else classification)"

section \<open>The business pipeline: classify, then validate\<close>

text \<open>
  \<^verbatim>\<open>_generate_business_leads\<close> and \<^verbatim>\<open>generate_leads\<close> of main.py: the
  classification is stored into the record, and the record is validated and
  scored.
\<close>

definition classify_and_validate :: "string \<Rightarrow> pydict \<Rightarrow> pydict" where
  "classify_and_validate now business =
     validate_and_enhance now (dict_update business (industry_classify business))"

definition double_space_record :: pydict where
  "double_space_record =
     [(''business_name'', PStr ''Acme''), (''business_description'', PStr ''fiber  optic'')]"

section \<open>Point tables\<close>

lemma pts_step: "(if b then s + n else s) = s + pts n b"
  by (simp add: pts_def)

lemma pts_one: "0 \<le> pts 1 b \<and> pts 1 b \<le> 1"
  by (simp add: pts_def)

lemma pts_two: "0 \<le> pts 2 b \<and> pts 2 b \<le> 2"
  by (simp add: pts_def)

lemma bind_exn_Inr: "bind_exn (Inr x) f = f x"
  by (simp add: bind_exn_def)

lemma if_Inr: "(if b then Inr x else (Inr y :: exn + 'a)) = Inr (if b then x else y)"
  by simp

lemma wt_pair: "(if b then (s + w, f) else (s, g)) = (s + wt w b, if b then f else g)"
  by (simp add: wt_def)

lemma wt_pair2:
  "(if b then (if c then (s + w + v, f) else (s + w, g)) else (s, h)) =
   (s + wt w b + wt v (b \<and> c), if b then (if c then f else g) else h)"
  by (simp add: wt_def)

lemma wt_pair3:
  "(if b then (s + w + wt v c, f) else (s, g)) =
   (s + wt w b + wt v (b \<and> c), if b then f else g)"
  by (simp add: wt_def)

lemma wt_step: "(if b then s + w else s) = s + wt w b"
  by (simp add: wt_def)

lemma wt_25: "wt 0.25 b = of_int (pts 25 b) / 100"
  by (simp add: wt_def pts_def)

lemma wt_20: "wt 0.20 b = of_int (pts 20 b) / 100"
  by (simp add: wt_def pts_def)

lemma wt_15: "wt 0.15 b = of_int (pts 15 b) / 100"
  by (simp add: wt_def pts_def)

lemma wt_05: "wt 0.05 b = of_int (pts 5 b) / 100"
  by (simp add: wt_def pts_def)

lemma wt_range: "0 \<le> w \<Longrightarrow> 0 \<le> wt w b \<and> wt w b \<le> w"
  by (simp add: wt_def)

lemma round2_hundredths: "round2 (of_int k / 100) = of_int k / 100"
  by (simp add: round2_def)

lemma hundredths_sum: "of_int a / 100 + of_int b / (100::rat) = of_int (a + b) / 100"
  by (simp add: add_divide_distrib)

text \<open>Rounding to two places leaves every sum of the weights as it is.\<close>

lemma isp_score_exact:
  "round2 (0 + wt 0.25 b1 + wt 0.15 b2 + wt 0.20 b3 + wt 0.05 b4 + wt 0.15 b5 + wt 0.05 b6
           + wt 0.15 b7 + wt 0.05 b8 + wt 0.05 b9)
   = wt 0.25 b1 + wt 0.15 b2 + wt 0.20 b3 + wt 0.05 b4 + wt 0.15 b5 + wt 0.05 b6
           + wt 0.15 b7 + wt 0.05 b8 + wt 0.05 b9"
proof -
  have zero: "(0::rat) = of_int 0 / 100" by simp
  show ?thesis
    unfolding wt_25 wt_20 wt_15 wt_05
    by (subst zero) (simp only: hundredths_sum round2_hundredths add_0)
qed

lemma isp_score_bounds:
  "0 \<le> wt 0.25 b1 + wt 0.15 b2 + wt 0.20 b3 + wt 0.05 b4 + wt 0.15 b5 + wt 0.05 b6
           + wt 0.15 b7 + wt 0.05 b8 + wt 0.05 b9
   \<and> wt 0.25 b1 + wt 0.15 b2 + wt 0.20 b3 + wt 0.05 b4 + wt 0.15 b5 + wt 0.05 b6
           + wt 0.15 b7 + wt 0.05 b8 + wt 0.05 b9 \<le> 1.10"
proof -
  note bs = wt_range [of "0.25" b1] wt_range [of "0.15" b2] wt_range [of "0.20" b3]
    wt_range [of "0.05" b4] wt_range [of "0.15" b5] wt_range [of "0.05" b6]
    wt_range [of "0.15" b7] wt_range [of "0.05" b8] wt_range [of "0.05" b9]
  show ?thesis using bs by simp
qed

lemma isp_validate_phone_str:
  "str_or_false v \<Longrightarrow> isp_validate_phone v = Inr (truthy v \<and> well_formed_phone v)"
  by (cases v) (auto simp: str_or_false_def isp_validate_phone_def well_formed_phone_def)

lemma isp_validate_unfold:
  assumes "str_or_false (get_or_empty d ''phone_number'')"
  shows "\<exists>r. isp_validate url_ok d = Inr r \<and> quality_score r =
     round2 (0
        + wt 0.25 (get_truthy d ''business_name'')
        + wt 0.15 (get_truthy d ''address'')
        + wt 0.20 (get_truthy d ''phone_number'')
        + wt 0.05 (get_truthy d ''phone_number''
                   \<and> (truthy (get_or_empty d ''phone_number'')
                   \<and> well_formed_phone (get_or_empty d ''phone_number'')))
        + wt 0.15 (get_truthy d ''website'')
        + wt 0.05 (get_truthy d ''website''
                   \<and> isp_validate_website url_ok (get_or_empty d ''website''))
        + wt 0.15 (get_truthy d ''business_description'')
        + wt 0.05 (get_truthy d ''service_type'')
        + wt 0.05 (get_truthy d ''coverage''))"
  unfolding isp_validate_def Let_def isp_validate_phone_str [OF assms] bind_exn_Inr if_Inr
    wt_pair wt_pair2 wt_pair3 wt_step prod.case
  by simp

lemma get_truthy_get_or_empty: "get_truthy d k = truthy (get_or_empty d k)"
  by (simp add: get_truthy_def get_or_empty_def split: option.splits)

section \<open>Deduplication loops\<close>

lemma get_str_str_field: "str_field d k \<Longrightarrow> get_str d k = Inr (str_of d k)"
  by (auto simp: str_field_def get_str_def str_of_def split: option.splits pyval.splits)

lemma dedup_key_keyed: "keyed b \<Longrightarrow> dedup_key b = Inr (key_of b)"
  by (simp add: keyed_def dedup_key_def key_of_def get_str_str_field bind_exn_def Let_def)

lemma dedup_loop_first:
  "list_all keyed data \<Longrightarrow>
   dedup_loop seen acc data = Inr (acc @ first_by_key key_of seen data)"
  by (induction data arbitrary: seen acc) (simp_all add: dedup_key_keyed bind_exn_def)

lemma subseq_first_by_key: "subseq (first_by_key key seen data) data"
  by (induction data arbitrary: seen) auto

lemma filter_first_by_key:
  "filter (\<lambda>b. key b = k) (first_by_key key seen data) =
   (if k = [] \<or> k \<in> seen then [] else take 1 (filter (\<lambda>b. key b = k) data))"
  by (induction data arbitrary: seen) auto

lemma is_duplicate_insert:
  "is_duplicate (insert n seen) x =
   (significant_overlap (set (split_ws x)) (set (split_ws n)) \<or> is_duplicate seen x)"
  by (auto simp: is_duplicate_def)

lemma isp_dedup_loop_retain:
  "list_all named data \<Longrightarrow>
   isp_dedup_loop seen acc data = Inr (acc @ retain_unmatched seen data)"
  by (induction data arbitrary: seen acc)
     (simp_all add: named_def get_str_str_field bind_exn_def normalized_name_of_def Let_def)

lemma subseq_retain_unmatched: "subseq (retain_unmatched seen data) data"
  by (induction data arbitrary: seen) auto

lemma retain_unmatched_fresh:
  "a \<in> set (retain_unmatched seen data) \<Longrightarrow> \<not> is_duplicate seen (normalized_name_of a)"
proof (induction data arbitrary: seen)
  case Nil
  then show ?case by simp
next
  case (Cons b bs)
  show ?case
  proof (cases "is_duplicate seen (normalized_name_of b)")
    case True
    with Cons.prems have "a \<in> set (retain_unmatched seen bs)" by simp
    then show ?thesis by (rule Cons.IH)
  next
    case False
    with Cons.prems
    have "a = b \<or> a \<in> set (retain_unmatched (insert (normalized_name_of b) seen) bs)"
      by simp
    then show ?thesis
    proof
      assume "a = b"
      with False show ?thesis by simp
    next
      assume "a \<in> set (retain_unmatched (insert (normalized_name_of b) seen) bs)"
      then have "\<not> is_duplicate (insert (normalized_name_of b) seen) (normalized_name_of a)"
        by (rule Cons.IH)
      then show ?thesis by (simp add: is_duplicate_insert)
    qed
  qed
qed

lemma retain_unmatched_apart:
  "sorted_wrt (\<lambda>a b. \<not> same_business a b) (retain_unmatched seen data)"
proof (induction data arbitrary: seen)
  case Nil
  show ?case by simp
next
  case (Cons b bs)
  show ?case
    using Cons.IH retain_unmatched_fresh [of _ "insert (normalized_name_of b) seen" bs]
    by (auto simp: is_duplicate_insert same_business_def)
qed

lemma retain_unmatched_covers:
  "b \<in> set data \<Longrightarrow>
   b \<in> set (retain_unmatched seen data) \<or> is_duplicate seen (normalized_name_of b)
   \<or> (\<exists>a \<in> set (retain_unmatched seen data). same_business a b)"
proof (induction data arbitrary: seen)
  case Nil
  then show ?case by simp
next
  case (Cons c cs)
  show ?case
  proof (cases "b = c")
    case True
    then show ?thesis by simp
  next
    case False
    with Cons.prems have "b \<in> set cs" by simp
    from Cons.IH [OF this, of seen] Cons.IH [OF this, of "insert (normalized_name_of c) seen"]
    show ?thesis
      by (auto simp: is_duplicate_insert same_business_def)
  qed
qed

lemma ratio_exceeds:
  fixes n m :: nat
  assumes "0 < m"
  shows "((of_nat n / of_nat m :: rat) > 0.6) = (3 * m < 5 * n)"
proof -
  have "((of_nat n / of_nat m :: rat) > 0.6) = ((0.6::rat) * of_nat m < of_nat n)"
    using assms by (simp add: pos_less_divide_eq)
  also have "\<dots> = ((3::rat) * of_nat m < 5 * of_nat n)" by (simp add: mult.commute)
  also have "\<dots> = ((of_nat (3 * m) :: rat) < of_nat (5 * n))" by simp
  also have "\<dots> = (3 * m < 5 * n)" by (simp only: of_nat_less_iff)
  finally show ?thesis .
qed

lemma significant_overlap_counts:
  assumes "finite A" "finite B"
  shows "significant_overlap A B \<longleftrightarrow>
     2 \<le> card (A \<inter> B)
     \<and> (3 * card A < 5 * card (A \<inter> B) \<or> 3 * card B < 5 * card (A \<inter> B))"
proof (cases "2 \<le> card (A \<inter> B)")
  case False
  then show ?thesis by (simp add: significant_overlap_def Let_def)
next
  case True
  have "card (A \<inter> B) \<le> card A" "card (A \<inter> B) \<le> card B"
    using assms by (simp_all add: card_mono)
  with True have pos: "0 < card A" "0 < card B" by simp_all
  show ?thesis
    unfolding significant_overlap_def Let_def ratio_exceeds [OF pos(1)] ratio_exceeds [OF pos(2)]
    by (rule refl)
qed

lemma retain_unmatched_pair:
  "retain_unmatched {} [a, b] = (if same_business a b then [a] else [a, b])"
  by (simp add: is_duplicate_def same_business_def)

section \<open>The keyword scoring loop\<close>

lemma fold_points:
  "foldl (\<lambda>score word. if P word then score + 3 else score) s ws
   = s + 3 * int (length (filter P ws))"
  by (induction ws arbitrary: s) simp_all

lemma keyword_score_points: "keyword_score t k = keyword_points t k"
  by (simp add: keyword_score_def keyword_points_def fold_points pts_def Let_def)

lemma keyword_points_nonneg: "0 \<le> keyword_points t k"
  by (simp add: keyword_points_def pts_def)

lemma map_of_dict_set: "map_of (dict_set d k v) k' = (if k' = k then Some v else map_of d k')"
  by (induction d) auto

lemma keys_dict_set: "fst ` set (dict_set d k v) = insert k (fst ` set d)"
  by (induction d) force+

lemma distinct_dict_set: "distinct (map fst d) \<Longrightarrow> distinct (map fst (dict_set d k v))"
  by (induction d) (auto simp: keys_dict_set)

lemma set_dict_set: "set (dict_set d k v) \<subseteq> insert (k, v) (set d)"
  by (induction d) (auto split: if_splits)

lemma positive_entry: "positive acc \<Longrightarrow> kv \<in> set acc \<Longrightarrow> get0 acc (fst kv) = snd kv \<and> 0 < snd kv"
  by (cases kv) (auto simp: positive_def get0_def)

lemma positive_get0: "positive acc \<Longrightarrow> 0 \<le> get0 acc c"
proof (cases "map_of acc c")
  case None
  then show ?thesis by (simp add: get0_def)
next
  case (Some v)
  assume "positive acc"
  moreover from Some have "(c, v) \<in> set acc" by (rule map_of_SomeD)
  ultimately have "0 < v" by (auto simp: positive_def)
  with Some show ?thesis by (simp add: get0_def)
qed

lemma score_step_get0:
  "get0 (score_step t acc e) c = get0 acc c + (if snd e = c then keyword_points t (fst e) else 0)"
  using keyword_points_nonneg [of t "fst e"]
  by (auto simp: score_step_def Let_def keyword_score_points get0_def map_of_dict_set)

lemma score_step_positive:
  assumes "positive acc"
  shows "positive (score_step t acc e)"
proof (cases "0 < keyword_points t (fst e)")
  case False
  with assms show ?thesis by (simp add: score_step_def Let_def keyword_score_points)
next
  case True
  let ?v = "get0 acc (snd e) + keyword_points t (fst e)"
  have new: "score_step t acc e = dict_set acc (snd e) ?v"
    using True by (simp add: score_step_def Let_def keyword_score_points)
  have "0 < ?v" using True positive_get0 [OF assms, of "snd e"] by simp
  then have "\<forall>kv \<in> set (dict_set acc (snd e) ?v). 0 < snd kv"
    using assms set_dict_set [of acc "snd e" ?v] by (auto simp: positive_def)
  then show ?thesis
    using assms by (simp add: new positive_def distinct_dict_set)
qed

lemma fold_get0:
  "get0 (foldl (score_step t) acc es) c = get0 acc c + part_total es t c"
  by (induction es arbitrary: acc) (auto simp: part_total_def score_step_get0)

lemma fold_positive: "positive acc \<Longrightarrow> positive (foldl (score_step t) acc es)"
  by (induction es arbitrary: acc) (auto simp: score_step_positive)

lemma score_keywords_get0: "get0 (score_keywords t) c = code_total t c"
  unfolding score_keywords_def code_total_def fold_get0 by (simp add: get0_def)

lemma score_keywords_positive: "positive (score_keywords t)"
  unfolding score_keywords_def by (rule fold_positive) (simp add: positive_def)

lemma best_entry_max:
  "best_entry first others \<in> set (first # others)
   \<and> (\<forall>kv \<in> set (first # others). snd kv \<le> snd (best_entry first others))"
proof (induction others arbitrary: first)
  case Nil
  show ?case by (simp add: best_entry_def)
next
  case (Cons kv others)
  have step: "best_entry first (kv # others)
              = best_entry (if snd kv > snd first then kv else first) others"
    by (simp add: best_entry_def)
  show ?case
    using Cons.IH [of "if snd kv > snd first then kv else first"]
    unfolding step by (auto split: if_splits)
qed


lemma get_default_str: "str_field d k \<Longrightarrow> get_default d k (PStr []) = PStr (str_of d k)"
  by (auto simp: str_field_def get_default_def str_of_def split: option.splits pyval.splits)

lemma strings_of_fields:
  "list_all (str_field d) ks \<Longrightarrow>
   strings_of (map (\<lambda>k. get_default d k (PStr [])) ks) = Inr (map (str_of d) ks)"
  by (induction ks) (simp_all add: get_default_str bind_exn_def)

lemma keyword_body_text:
  assumes "list_all (str_field info) text_keys"
  shows "keyword_body info =
     Inr (case score_keywords (combined_text_of info) of
            [] \<Rightarrow> no_match_result
          | first # others \<Rightarrow>
              match_result (fst (best_entry first others)) (snd (best_entry first others)))"
  by (simp add: keyword_body_def Let_def join_values_def strings_of_fields [OF assms]
      bind_exn_def combined_text_of_def split: list.splits)

lemma no_scores: "score_keywords t = [] \<longleftrightarrow> (\<forall>c. code_total t c = 0)"
proof
  assume "score_keywords t = []"
  then have "get0 (score_keywords t) c = 0" for c by (simp add: get0_def)
  then show "\<forall>c. code_total t c = 0" by (simp add: score_keywords_get0)
next
  assume zero: "\<forall>c. code_total t c = 0"
  show "score_keywords t = []"
  proof (cases "score_keywords t")
    case Nil
    then show ?thesis .
  next
    case (Cons kv rest)
    then have "kv \<in> set (score_keywords t)" by simp
    from positive_entry [OF score_keywords_positive this]
    have "0 < code_total t (fst kv)" by (simp add: score_keywords_get0)
    with zero show ?thesis by simp
  qed
qed

lemma best_score:
  assumes "score_keywords t = first # others"
  shows "code_total t (fst (best_entry first others)) = snd (best_entry first others)
         \<and> 0 < code_total t (fst (best_entry first others))
         \<and> (\<forall>c. code_total t c \<le> code_total t (fst (best_entry first others)))"
proof -
  let ?best = "best_entry first others"
  from best_entry_max [of first others] assms
  have member: "?best \<in> set (score_keywords t)"
    and greatest: "\<forall>kv \<in> set (score_keywords t). snd kv \<le> snd ?best"
    by simp_all
  from positive_entry [OF score_keywords_positive member]
  have here: "code_total t (fst ?best) = snd ?best" "0 < snd ?best"
    by (simp_all add: score_keywords_get0)
  have "code_total t c \<le> snd ?best" for c
  proof (cases "map_of (score_keywords t) c")
    case None
    then have "get0 (score_keywords t) c = 0" by (simp add: get0_def)
    with here show ?thesis by (simp add: score_keywords_get0)
  next
    case (Some v)
    then have "(c, v) \<in> set (score_keywords t)" by (rule map_of_SomeD)
    with greatest have "v \<le> snd ?best" by force
    moreover from Some have "get0 (score_keywords t) c = v" by (simp add: get0_def)
    ultimately show ?thesis by (simp add: score_keywords_get0)
  qed
  with here show ?thesis by simp
qed

section \<open>The results of classification\<close>

lemma keyword_result_cases:
  "(\<exists>e. keyword_body info = Inl e \<and> classify_with_keywords msg info = keyword_error_result msg e)
   \<or> classify_with_keywords msg info = no_match_result
   \<or> (\<exists>best total_score. classify_with_keywords msg info = match_result best total_score)"
proof (cases "keyword_body info")
  case (Inl e)
  then show ?thesis by (simp add: classify_with_keywords_def)
next
  case (Inr r)
  then have "r = no_match_result \<or> (\<exists>best total_score. r = match_result best total_score)"
    by (auto simp: keyword_body_def Let_def bind_exn_def split: sum.splits list.splits)
  with Inr show ?thesis by (auto simp: classify_with_keywords_def)
qed

lemma keyword_result_error:
  assumes "map_of (classify_with_keywords msg info) ''source'' = Some (PStr ''error'')"
  shows "map_of (classify_with_keywords msg info) ''confidence_score'' = Some (PInt 0)
         \<and> map_of (classify_with_keywords msg info) ''naics_code'' = Some (PStr ''999999'')"
  using keyword_result_cases [of info msg] assms
  by (auto simp: keyword_error_result_def no_match_result_def match_result_def Let_def)

lemma exceeds_70_min_100: "min_100 v = Inr conf \<Longrightarrow> \<exists>b. exceeds_70 conf = Inr b"
  by (auto simp: min_100_def exceeds_70_def split: pyval.splits)

lemma classify_body_returns: "\<exists>r. classify_body msg llm_client info = Inr r"
proof (cases llm_client)
  case None
  then show ?thesis by (simp add: classify_body_def)
next
  case (Some llm)
  show ?thesis
  proof (cases "ai_body llm info")
    case (Inl e)
    then show ?thesis
      by (simp add: Some classify_body_def classify_with_ai_def ai_accepted_def subscript_def
          bind_exn_def)
  next
    case (Inr r)
    then obtain raw code descr conf where raw: "llm info = Inr raw"
      and conf: "min_100 (get_default raw ''confidence_score'' (PInt 0)) = Inr conf"
      and r: "r = [(''success'', get_default raw ''success'' (PBool False)),
             (''naics_code'', PStr code),
             (''industry_description'', descr),
             (''confidence_score'', conf),
             (''reasoning'', get_default raw ''reasoning'' (PStr [])),
             (''source'', get_default raw ''source'' (PStr ''ai'')),
             (''model'', get_default raw ''model'' (PStr ''unknown''))]"
      by (auto simp: ai_body_def bind_exn_def Let_def split: sum.splits)
    from exceeds_70_min_100 [OF conf] obtain b where "exceeds_70 conf = Inr b" ..
    then show ?thesis
      by (simp add: Some classify_body_def classify_with_ai_def Inr r ai_accepted_def
          subscript_def bind_exn_def Let_def)
  qed
qed


lemma classify_cases:
  "classify msg llm_client info = classify_with_keywords msg info
   \<or> (\<exists>llm raw code descr conf. llm_client = Some llm \<and> llm info = Inr raw
        \<and> exceeds_70 conf = Inr True
        \<and> classify msg llm_client info =
            [(''success'', get_default raw ''success'' (PBool False)),
             (''naics_code'', PStr code),
             (''industry_description'', descr),
             (''confidence_score'', conf),
             (''reasoning'', get_default raw ''reasoning'' (PStr [])),
             (''source'', get_default raw ''source'' (PStr ''ai'')),
             (''model'', get_default raw ''model'' (PStr ''unknown''))])"
proof (cases llm_client)
  case None
  then show ?thesis by (simp add: classify_def classify_body_def)
next
  case (Some llm)
  show ?thesis
  proof (cases "ai_body llm info")
    case (Inl e)
    then show ?thesis
      by (simp add: Some classify_def classify_body_def classify_with_ai_def ai_accepted_def
          subscript_def bind_exn_def)
  next
    case (Inr r)
    then obtain raw code descr conf where raw: "llm info = Inr raw"
      and conf: "min_100 (get_default raw ''confidence_score'' (PInt 0)) = Inr conf"
      and r: "r = [(''success'', get_default raw ''success'' (PBool False)),
             (''naics_code'', PStr code),
             (''industry_description'', descr),
             (''confidence_score'', conf),
             (''reasoning'', get_default raw ''reasoning'' (PStr [])),
             (''source'', get_default raw ''source'' (PStr ''ai'')),
             (''model'', get_default raw ''model'' (PStr ''unknown''))]"
      by (auto simp: ai_body_def bind_exn_def Let_def split: sum.splits)
    from exceeds_70_min_100 [OF conf] obtain b where b: "exceeds_70 conf = Inr b" ..
    have accepted: "ai_accepted r
                    = Inr (truthy (get_default raw ''success'' (PBool False)) \<and> b)"
      by (simp add: r ai_accepted_def subscript_def bind_exn_def b)
    show ?thesis
    proof (cases "truthy (get_default raw ''success'' (PBool False)) \<and> b")
      case True
      then have "classify msg llm_client info = r"
        by (simp add: Some classify_def classify_body_def classify_with_ai_def Inr accepted
            bind_exn_def Let_def)
      with True raw b r Some show ?thesis by auto
    next
      case False
      then have "classify msg llm_client info = classify_with_keywords msg info"
        by (auto simp: Some classify_def classify_body_def classify_with_ai_def Inr accepted
            bind_exn_def Let_def)
      then show ?thesis by simp
    qed
  qed
qed

lemma isp_dedup_loop_raises:
  "\<not> list_all named data \<Longrightarrow> isp_dedup_loop seen acc data = Inl AttributeError"
proof (induction data arbitrary: seen acc)
  case Nil
  then show ?case by simp
next
  case (Cons b bs)
  show ?case
  proof (cases "named b")
    case True
    with Cons.prems have rest: "\<not> list_all named bs" by simp
    from True have "get_str b ''business_name'' = Inr (str_of b ''business_name'')"
      by (simp add: named_def get_str_str_field)
    then show ?thesis by (simp add: bind_exn_def Let_def Cons.IH [OF rest])
  next
    case False
    then have "get_str b ''business_name'' = Inl AttributeError"
      by (auto simp: named_def str_field_def get_str_def split: option.splits pyval.splits)
    then show ?thesis by (simp add: bind_exn_def)
  qed
qed

lemma retain_unmatched_snoc:
  "retain_unmatched seen (data @ [b]) =
     (if is_duplicate (seen \<union> normalized_name_of ` set (retain_unmatched seen data))
           (normalized_name_of b)
      then retain_unmatched seen data
      else retain_unmatched seen data @ [b])"
  by (induction data arbitrary: seen) simp_all

lemma is_duplicate_same_business:
  "is_duplicate (normalized_name_of ` set out) (normalized_name_of b)
   = (\<exists>a \<in> set out. same_business a b)"
  by (simp add: is_duplicate_def same_business_def)

lemma strings_of_untyped:
  "\<not> list_all (str_field d) ks \<Longrightarrow>
   strings_of (map (\<lambda>k. get_default d k (PStr [])) ks) = Inl TypeError"
proof (induction ks)
  case Nil
  then show ?case by simp
next
  case (Cons k ks)
  show ?case
  proof (cases "str_field d k")
    case True
    with Cons.prems have "\<not> list_all (str_field d) ks" by simp
    from Cons.IH [OF this] True show ?thesis by (simp add: get_default_str bind_exn_def)
  next
    case False
    then obtain v where "map_of d k = Some v" "\<forall>s. v \<noteq> PStr s"
      by (auto simp: str_field_def split: option.splits pyval.splits)
    then show ?thesis by (cases v) (simp_all add: get_default_def)
  qed
qed

lemma keyword_body_untyped:
  "\<not> list_all (str_field info) text_keys \<Longrightarrow> keyword_body info = Inl TypeError"
  by (simp add: keyword_body_def Let_def join_values_def strings_of_untyped bind_exn_def)

lemma classify_accepted:
  "classify_body msg llm_client info =
     Inr (case accepted_ai_result msg llm_client info of
            Some ai_result \<Rightarrow> ai_result
          | None \<Rightarrow> classify_with_keywords msg info)"
proof (cases llm_client)
  case None
  then show ?thesis by (simp add: classify_body_def accepted_ai_result_def)
next
  case (Some llm)
  show ?thesis
  proof (cases "ai_body llm info")
    case (Inl e)
    then show ?thesis
      by (simp add: Some classify_body_def accepted_ai_result_def classify_with_ai_def
          ai_accepted_def subscript_def bind_exn_def)
  next
    case (Inr r)
    then obtain raw code descr conf where raw: "llm info = Inr raw"
      and conf: "min_100 (get_default raw ''confidence_score'' (PInt 0)) = Inr conf"
      and r: "r = [(''success'', get_default raw ''success'' (PBool False)),
             (''naics_code'', PStr code),
             (''industry_description'', descr),
             (''confidence_score'', conf),
             (''reasoning'', get_default raw ''reasoning'' (PStr [])),
             (''source'', get_default raw ''source'' (PStr ''ai'')),
             (''model'', get_default raw ''model'' (PStr ''unknown''))]"
      by (auto simp: ai_body_def bind_exn_def Let_def split: sum.splits)
    from exceeds_70_min_100 [OF conf] obtain b where b: "exceeds_70 conf = Inr b" ..
    have accepted: "ai_accepted r
                    = Inr (truthy (get_default raw ''success'' (PBool False)) \<and> b)"
      by (simp add: r ai_accepted_def subscript_def bind_exn_def b)
    show ?thesis
      by (simp add: Some classify_body_def accepted_ai_result_def classify_with_ai_def Inr
          accepted bind_exn_def Let_def)
  qed
qed

lemma accepted_source:
  assumes "accepted_ai_result msg llm_client info = Some result"
  shows "\<exists>llm answer. llm_client = Some llm \<and> llm info = Inr answer
           \<and> map_of result ''source'' = Some (get_default answer ''source'' (PStr ''ai''))"
proof -
  from assms obtain llm where llm: "llm_client = Some llm"
    and result: "classify_with_ai msg llm info = result"
    and accepted: "ai_accepted result = Inr True"
    by (auto simp: accepted_ai_result_def Let_def split: option.splits if_splits)
  show ?thesis
  proof (cases "ai_body llm info")
    case (Inl e)
    with result accepted show ?thesis
      by (auto simp: classify_with_ai_def ai_accepted_def subscript_def bind_exn_def)
  next
    case (Inr r)
    then obtain answer where "llm info = Inr answer"
      and "map_of r ''source'' = Some (get_default answer ''source'' (PStr ''ai''))"
      by (auto simp: ai_body_def bind_exn_def Let_def split: sum.splits)
    with Inr result llm show ?thesis by (auto simp: classify_with_ai_def)
  qed
qed

section \<open>Searching for a literal\<close>





section \<open>The patterns in the text of Acme Fiber Internet\<close>
















section \<open>Lead score\<close>

text \<open>
  Claim C10.  For every record the lead score is the base of 5 plus the awarded
  increments (company size 1, service type or technology focus 1, CEO e-mail 2
  or else general e-mail 1, website 1), and therefore lies between 5 and 10.
\<close>

theorem lead_score_range:
  "calculate_lead_score d =
     5 + pts 1 (get_truthy d ''company_size'')
       + pts 1 (get_truthy d ''service_type'' \<or> get_truthy d ''technology_focus'')
       + (if found d ''ceo_email'' ''NOT_FOUND'' then 2
          else pts 1 (found d ''general_email'' ''NOT_FOUND''))
       + pts 1 (found d ''website'' ''NOT_FOUND'')
   \<and> 5 \<le> calculate_lead_score d \<and> calculate_lead_score d \<le> 10"
  by (simp add: calculate_lead_score_def pts_def Let_def)

theorem lead_score_range_witness:
  "calculate_lead_score lead_record =
     5 + pts 1 (get_truthy lead_record ''company_size'')
       + pts 1 (get_truthy lead_record ''service_type'' \<or> get_truthy lead_record ''technology_focus'')
       + (if found lead_record ''ceo_email'' ''NOT_FOUND'' then 2
          else pts 1 (found lead_record ''general_email'' ''NOT_FOUND''))
       + pts 1 (found lead_record ''website'' ''NOT_FOUND'')
   \<and> 5 \<le> calculate_lead_score lead_record \<and> calculate_lead_score lead_record \<le> 10"
  by (rule lead_score_range)


section \<open>Data quality score\<close>

text \<open>
  Claim C6, as amended.  For every record the business-path data quality score
  is the sum of: name present and not \<^verbatim>\<open>UNKNOWN\<close> 2, description present 1,
  industry or primary industry present 1, and one point each for a phone
  number, an address, a website, a CEO name, a CEO e-mail and a general e-mail
  that is present and not the \<^verbatim>\<open>NOT_FOUND\<close> sentinel; the cap at 10 is never
  reached from above and the score lies between 0 and 10.  The points for
  phone, address and website are awarded for presence, not for validity.
\<close>

theorem quality_score_table:
  "calculate_overall_quality_score d =
     pts 2 (found d ''business_name'' ''UNKNOWN'')
     + pts 1 (get_truthy d ''business_description'')
     + pts 1 (get_truthy d ''industry'' \<or> get_truthy d ''industry_primary'')
     + pts 1 (found d ''phone_number'' ''NOT_FOUND'')
     + pts 1 (found d ''address'' ''NOT_FOUND'')
     + pts 1 (found d ''website'' ''NOT_FOUND'')
     + pts 1 (found d ''ceo_name'' ''NOT_FOUND'')
     + pts 1 (found d ''ceo_email'' ''NOT_FOUND'')
     + pts 1 (found d ''general_email'' ''NOT_FOUND'')
   \<and> 0 \<le> calculate_overall_quality_score d \<and> calculate_overall_quality_score d \<le> 10"
proof -
  have unfolded: "calculate_overall_quality_score d =
     min 10 (0 + pts 2 (found d ''business_name'' ''UNKNOWN'')
     + pts 1 (get_truthy d ''business_description'')
     + pts 1 (get_truthy d ''industry'' \<or> get_truthy d ''industry_primary'')
     + pts 1 (found d ''phone_number'' ''NOT_FOUND'')
     + pts 1 (found d ''address'' ''NOT_FOUND'')
     + pts 1 (found d ''website'' ''NOT_FOUND'')
     + pts 1 (found d ''ceo_name'' ''NOT_FOUND'')
     + pts 1 (found d ''ceo_email'' ''NOT_FOUND'')
     + pts 1 (found d ''general_email'' ''NOT_FOUND''))"
    unfolding calculate_overall_quality_score_def Let_def pts_step by (rule refl)
  note bounds = pts_two [of "found d ''business_name'' ''UNKNOWN''"]
    pts_one [of "get_truthy d ''business_description''"]
    pts_one [of "get_truthy d ''industry'' \<or> get_truthy d ''industry_primary''"]
    pts_one [of "found d ''phone_number'' ''NOT_FOUND''"]
    pts_one [of "found d ''address'' ''NOT_FOUND''"]
    pts_one [of "found d ''website'' ''NOT_FOUND''"]
    pts_one [of "found d ''ceo_name'' ''NOT_FOUND''"]
    pts_one [of "found d ''ceo_email'' ''NOT_FOUND''"]
    pts_one [of "found d ''general_email'' ''NOT_FOUND''"]
  show ?thesis
    unfolding unfolded using bounds by linarith
qed

theorem quality_score_table_witness:
  "calculate_overall_quality_score unchecked_record =
     pts 2 (found unchecked_record ''business_name'' ''UNKNOWN'')
     + pts 1 (get_truthy unchecked_record ''business_description'')
     + pts 1 (get_truthy unchecked_record ''industry''
              \<or> get_truthy unchecked_record ''industry_primary'')
     + pts 1 (found unchecked_record ''phone_number'' ''NOT_FOUND'')
     + pts 1 (found unchecked_record ''address'' ''NOT_FOUND'')
     + pts 1 (found unchecked_record ''website'' ''NOT_FOUND'')
     + pts 1 (found unchecked_record ''ceo_name'' ''NOT_FOUND'')
     + pts 1 (found unchecked_record ''ceo_email'' ''NOT_FOUND'')
     + pts 1 (found unchecked_record ''general_email'' ''NOT_FOUND'')
   \<and> 0 \<le> calculate_overall_quality_score unchecked_record
   \<and> calculate_overall_quality_score unchecked_record \<le> 10"
  by (rule quality_score_table)

text \<open>
  The claim as stated fails: a record whose phone, address and website are
  present but not valid scores 5, where the table of the specification gives 2.
\<close>

theorem quality_score_counterexample:
  "calculate_overall_quality_score unchecked_record = 5
   \<and> spec_quality_score unchecked_record = 2"
  by code_simp

section \<open>ISP quality score\<close>

text \<open>
  Claim C7, as amended.  For every record whose phone number is a string (or
  absent or false), ISP validation returns, and the quality score is the sum of
  the weights: business name 0.25, address 0.15, phone 0.20 plus 0.05 if
  well-formed, website 0.15 plus 0.05 if well-formed, description 0.15, service
  type 0.05, coverage 0.05.  The score lies between 0.0 and 1.10: the weights of
  the seven fields add up to 1.0 and the two bonuses come on top.
\<close>

theorem isp_quality_score_weights:
  assumes "str_or_false (get_or_empty d ''phone_number'')"
  shows "\<exists>r. isp_validate url_ok d = Inr r
           \<and> quality_score r = isp_weight_table url_ok d
           \<and> 0 \<le> quality_score r \<and> quality_score r \<le> 1.10"
proof -
  from isp_validate_unfold [OF assms, of url_ok]
  obtain r where r: "isp_validate url_ok d = Inr r"
    and q: "quality_score r =
     round2 (0
        + wt 0.25 (get_truthy d ''business_name'')
        + wt 0.15 (get_truthy d ''address'')
        + wt 0.20 (get_truthy d ''phone_number'')
        + wt 0.05 (get_truthy d ''phone_number''
                   \<and> (truthy (get_or_empty d ''phone_number'')
                   \<and> well_formed_phone (get_or_empty d ''phone_number'')))
        + wt 0.15 (get_truthy d ''website'')
        + wt 0.05 (get_truthy d ''website''
                   \<and> isp_validate_website url_ok (get_or_empty d ''website''))
        + wt 0.15 (get_truthy d ''business_description'')
        + wt 0.05 (get_truthy d ''service_type'')
        + wt 0.05 (get_truthy d ''coverage''))"
    by blast
  have same: "(get_truthy d ''phone_number''
               \<and> (truthy (get_or_empty d ''phone_number'')
               \<and> well_formed_phone (get_or_empty d ''phone_number'')))
            = (get_truthy d ''phone_number''
               \<and> well_formed_phone (get_or_empty d ''phone_number''))"
    by (auto simp: get_truthy_get_or_empty)
  have table: "quality_score r = isp_weight_table url_ok d"
    unfolding q isp_score_exact same isp_weight_table_def by (rule refl)
  have "0 \<le> isp_weight_table url_ok d \<and> isp_weight_table url_ok d \<le> 1.10"
    unfolding isp_weight_table_def by (rule isp_score_bounds)
  with r table show ?thesis by simp
qed

text \<open>
  A record with every field, and a record that has only a phone number, which
  is well-formed once the no-break space after it is stripped.
\<close>

theorem isp_quality_score_weights_witness:
  "str_or_false (get_or_empty full_isp_record ''phone_number'')
   \<and> isp_validate (\<lambda>w. True) full_isp_record
       = Inr \<lparr>quality_score = 1.10, phone_valid = True, website_valid = True,
              validation_flags = []\<rparr>
   \<and> isp_weight_table (\<lambda>w. True) full_isp_record = 1.10
   \<and> str_or_false (get_or_empty padded_phone_record ''phone_number'')
   \<and> isp_validate (\<lambda>w. True) padded_phone_record
       = Inr \<lparr>quality_score = 0.25, phone_valid = True, website_valid = False,
              validation_flags = [''missing_business_name'', ''missing_address'',
                                  ''missing_website'', ''missing_description'']\<rparr>
   \<and> isp_weight_table (\<lambda>w. True) padded_phone_record = 0.25"
proof -
  have full: "str_or_false (get_or_empty full_isp_record ''phone_number'')"
    by code_simp
  have padded: "str_or_false (get_or_empty padded_phone_record ''phone_number'')"
    by code_simp
  have run_full: "isp_validate (\<lambda>w. True) full_isp_record
       = Inr \<lparr>quality_score = 1.10, phone_valid = True, website_valid = True,
              validation_flags = []\<rparr>"
    by code_simp
  have run_padded: "isp_validate (\<lambda>w. True) padded_phone_record
       = Inr \<lparr>quality_score = 0.25, phone_valid = True, website_valid = False,
              validation_flags = [''missing_business_name'', ''missing_address'',
                                  ''missing_website'', ''missing_description'']\<rparr>"
    by code_simp
  from isp_quality_score_weights [OF full, of "\<lambda>w. True"] run_full
  have table_full: "isp_weight_table (\<lambda>w. True) full_isp_record = 1.10"
    by auto
  from isp_quality_score_weights [OF padded, of "\<lambda>w. True"] run_padded
  have table_padded: "isp_weight_table (\<lambda>w. True) padded_phone_record = 0.25"
    by auto
  from full padded run_full run_padded table_full table_padded show ?thesis
    by (intro conjI)
qed

text \<open>
  The claim as stated fails: a record with every field present and a
  well-formed phone number scores 1.10 when \<^verbatim>\<open>urlparse\<close> accepts its website
  and 1.05 when it does not, above the stated range.
\<close>

theorem isp_quality_score_counterexample:
  "(case isp_validate (\<lambda>w. True) full_isp_record of
      Inl e \<Rightarrow> False | Inr r \<Rightarrow> quality_score r = 1.10 \<and> 1 < quality_score r)
   \<and> (case isp_validate (\<lambda>w. False) full_isp_record of
      Inl e \<Rightarrow> False | Inr r \<Rightarrow> quality_score r = 1.05 \<and> 1 < quality_score r)"
  by code_simp

section \<open>Exact-key deduplication\<close>

text \<open>
  Claim C4, as amended.  For records whose name and phone number are strings,
  exact-key deduplication returns an order-preserving sublist of its input.
  The key of a record is its phone number with the surrounding whitespace
  removed when that is not empty, and otherwise its business name in lower
  case with the surrounding whitespace removed; the phone number is not
  reduced to its digits and the name keeps its punctuation and inner
  whitespace.  For every non-empty key the output holds exactly the first
  input record with that key, and records with an empty key are dropped; so of
  two input records with the same non-empty key exactly one record with that
  key is in the output.
\<close>

theorem exact_key_dedup:
  assumes "list_all keyed data"
  shows "\<exists>out. deduplicate_businesses data = Inr out
           \<and> subseq out data
           \<and> (\<forall>k. filter (\<lambda>b. key_of b = k) out =
                    (if k = [] then [] else take 1 (filter (\<lambda>b. key_of b = k) data)))
           \<and> (\<forall>a b. a \<in> set data \<and> b \<in> set data \<and> key_of a = key_of b \<and> key_of a \<noteq> []
                \<longrightarrow> length (filter (\<lambda>c. key_of c = key_of a) out) = 1)"
proof -
  let ?out = "first_by_key key_of {} data"
  have run: "deduplicate_businesses data = Inr ?out"
    using dedup_loop_first [OF assms, of "{}" "[]"] by (simp add: deduplicate_businesses_def)
  have per_key: "filter (\<lambda>b. key_of b = k) ?out =
                 (if k = [] then [] else take 1 (filter (\<lambda>b. key_of b = k) data))" for k
    by (simp add: filter_first_by_key)
  have one: "length (filter (\<lambda>c. key_of c = key_of a) ?out) = 1"
    if "a \<in> set data" "key_of a \<noteq> []" for a
  proof -
    from that have "filter (\<lambda>c. key_of c = key_of a) data \<noteq> []"
      by (auto simp: filter_empty_conv)
    then show ?thesis
      using that by (cases "filter (\<lambda>c. key_of c = key_of a) data") (simp_all add: per_key)
  qed
  show ?thesis
    using run subseq_first_by_key [of key_of "{}" data] per_key one by blast
qed

text \<open>
  Five records: the third has the phone number of the first, with blanks
  around it, and the fifth has the name of the fourth in small letters; the
  first of each pair is kept.
\<close>

theorem exact_key_dedup_witness:
  "list_all keyed [dashed_phone_record, bracket_phone_record, same_phone_record,
                   capital_name_record, small_name_record]
   \<and> deduplicate_businesses [dashed_phone_record, bracket_phone_record, same_phone_record,
                             capital_name_record, small_name_record]
       = Inr [dashed_phone_record, bracket_phone_record, capital_name_record]
   \<and> key_of same_phone_record = key_of dashed_phone_record
   \<and> key_of small_name_record = key_of capital_name_record
   \<and> subseq [dashed_phone_record, bracket_phone_record, capital_name_record]
        [dashed_phone_record, bracket_phone_record, same_phone_record,
         capital_name_record, small_name_record]
   \<and> (\<forall>k. filter (\<lambda>b. key_of b = k)
             [dashed_phone_record, bracket_phone_record, capital_name_record] =
           (if k = [] then []
            else take 1 (filter (\<lambda>b. key_of b = k)
                           [dashed_phone_record, bracket_phone_record, same_phone_record,
                            capital_name_record, small_name_record])))"
proof -
  have strings: "list_all keyed [dashed_phone_record, bracket_phone_record, same_phone_record,
                                 capital_name_record, small_name_record]"
    by code_simp
  have run: "deduplicate_businesses [dashed_phone_record, bracket_phone_record,
                                     same_phone_record, capital_name_record, small_name_record]
             = Inr [dashed_phone_record, bracket_phone_record, capital_name_record]"
    by code_simp
  have phone: "key_of same_phone_record = key_of dashed_phone_record"
    by code_simp
  have name: "key_of small_name_record = key_of capital_name_record"
    by code_simp
  from exact_key_dedup [OF strings] run strings phone name show ?thesis
    by auto
qed

text \<open>
  The claim as stated fails: two records whose phone numbers have the same
  digits, written with different punctuation, are both kept.
\<close>

theorem exact_key_dedup_counterexample:
  "deduplicate_businesses [dashed_phone_record, bracket_phone_record]
     = Inr [dashed_phone_record, bracket_phone_record]
   \<and> phone_digits dashed_phone_record = phone_digits bracket_phone_record"
  by code_simp

section \<open>Deduplication by name similarity\<close>

text \<open>
  Claim C5, as amended.  Deduplication by name similarity returns the empty
  list for the empty list.  It returns for every list of records whose business
  name is a string or absent, and raises for every list that holds a record
  with another value (such as \<^verbatim>\<open>None\<close>) as its name.  The output is an
  order-preserving sublist of the input, so the retained records are unchanged,
  and no two retained records are the same business.  A record is retained if
  and only if it is not the same business as a record retained before it: the
  output for a list followed by a record \<open>b\<close> is the output for the list, with
  \<open>b\<close> added at the end unless \<open>b\<close> is the same business as one of its records.
  Two names are the same business iff their word sets share at least 2 words
  and the number of shared words divided by the word count of one of the two
  names exceeds 0.6 (in whole numbers: five times the shared words exceed
  three times the word count).  Of two records that are the same business
  exactly the first is retained.
\<close>

theorem fuzzy_name_dedup:
  "isp_deduplicate_businesses [] = Inr []
   \<and> (list_all named (data @ [b]) \<longrightarrow>
        (\<exists>out. isp_deduplicate_businesses data = Inr out
           \<and> subseq out data
           \<and> sorted_wrt (\<lambda>a b. \<not> same_business a b) out
           \<and> isp_deduplicate_businesses (data @ [b])
               = Inr (if \<exists>a \<in> set out. same_business a b then out else out @ [b])))
   \<and> (list_all named [a, b] \<longrightarrow>
        isp_deduplicate_businesses [a, b] = Inr (if same_business a b then [a] else [a, b]))
   \<and> (same_business a b \<longleftrightarrow>
        (let A = set (split_ws (normalized_name_of a));
             B = set (split_ws (normalized_name_of b))
         in 2 \<le> card (A \<inter> B)
            \<and> (3 * card A < 5 * card (A \<inter> B) \<or> 3 * card B < 5 * card (A \<inter> B))))
   \<and> (\<not> list_all named data \<longrightarrow> isp_deduplicate_businesses data = Inl AttributeError)"
proof (intro conjI impI)
  show "isp_deduplicate_businesses [] = Inr []"
    by (simp add: isp_deduplicate_businesses_def)
next
  assume strings: "list_all named (data @ [b])"
  then have data: "list_all named data" by simp
  let ?out = "retain_unmatched {} data"
  have run: "isp_deduplicate_businesses data = Inr ?out"
    using isp_dedup_loop_retain [OF data, of "{}" "[]"]
    by (simp add: isp_deduplicate_businesses_def)
  have "isp_deduplicate_businesses (data @ [b]) = Inr (retain_unmatched {} (data @ [b]))"
    using isp_dedup_loop_retain [OF strings, of "{}" "[]"]
    by (simp add: isp_deduplicate_businesses_def)
  then have more: "isp_deduplicate_businesses (data @ [b])
                   = Inr (if \<exists>a \<in> set ?out. same_business a b then ?out else ?out @ [b])"
    by (simp add: retain_unmatched_snoc is_duplicate_same_business)
  from run more subseq_retain_unmatched [of "{}" data] retain_unmatched_apart [of "{}" data]
  show "\<exists>out. isp_deduplicate_businesses data = Inr out
           \<and> subseq out data
           \<and> sorted_wrt (\<lambda>a b. \<not> same_business a b) out
           \<and> isp_deduplicate_businesses (data @ [b])
               = Inr (if \<exists>a \<in> set out. same_business a b then out else out @ [b])"
    by blast
next
  assume strings: "list_all named [a, b]"
  have loop: "isp_dedup_loop {} [] [a, b] = Inr ([] @ retain_unmatched {} [a, b])"
    by (rule isp_dedup_loop_retain [OF strings])
  show "isp_deduplicate_businesses [a, b] = Inr (if same_business a b then [a] else [a, b])"
    unfolding isp_deduplicate_businesses_def loop retain_unmatched_pair by simp
next
  show "same_business a b \<longleftrightarrow>
        (let A = set (split_ws (normalized_name_of a));
             B = set (split_ws (normalized_name_of b))
         in 2 \<le> card (A \<inter> B)
            \<and> (3 * card A < 5 * card (A \<inter> B) \<or> 3 * card B < 5 * card (A \<inter> B)))"
    unfolding same_business_def Let_def
    by (subst significant_overlap_counts) (auto simp: Int_commute)
next
  assume untyped: "\<not> list_all named data"
  then have "data \<noteq> []" by auto
  with isp_dedup_loop_raises [OF untyped, of "{}" "[]"]
  show "isp_deduplicate_businesses data = Inl AttributeError"
    by (simp add: isp_deduplicate_businesses_def)
qed

text \<open>
  Four records: the names of the second and the third differ in one letter and
  share one word of two, so both are kept; the fourth shares four of its five
  words with the first, a ratio of 0.8, and is dropped.
\<close>

theorem fuzzy_name_dedup_witness:
  "list_all named ([spectrum_record, acute_name_record, diaeresis_name_record]
                   @ [spectrum_again_record])
   \<and> isp_deduplicate_businesses [spectrum_record, acute_name_record, diaeresis_name_record]
       = Inr [spectrum_record, acute_name_record, diaeresis_name_record]
   \<and> same_business spectrum_record spectrum_again_record
   \<and> isp_deduplicate_businesses ([spectrum_record, acute_name_record, diaeresis_name_record]
                                 @ [spectrum_again_record])
       = Inr [spectrum_record, acute_name_record, diaeresis_name_record]
   \<and> list_all named [spectrum_record, spectrum_again_record]
   \<and> isp_deduplicate_businesses [spectrum_record, spectrum_again_record] = Inr [spectrum_record]
   \<and> \<not> list_all named [spectrum_record, nameless_record]
   \<and> isp_deduplicate_businesses [spectrum_record, nameless_record] = Inl AttributeError"
proof -
  let ?data = "[spectrum_record, acute_name_record, diaeresis_name_record]"
  have strings: "list_all named (?data @ [spectrum_again_record])"
    by code_simp
  have run: "isp_deduplicate_businesses ?data = Inr ?data"
    by code_simp
  have same: "same_business spectrum_record spectrum_again_record"
    by code_simp
  have pair: "list_all named [spectrum_record, spectrum_again_record]"
    by code_simp
  have untyped: "\<not> list_all named [spectrum_record, nameless_record]"
    by code_simp
  note facts = fuzzy_name_dedup [where data = ?data and b = spectrum_again_record
      and a = spectrum_record]
  note fails = fuzzy_name_dedup [where data = "[spectrum_record, nameless_record]"
      and b = spectrum_again_record and a = spectrum_record]
  from facts strings run same
  have more: "isp_deduplicate_businesses (?data @ [spectrum_again_record]) = Inr ?data"
    by auto
  from facts pair same
  have two: "isp_deduplicate_businesses [spectrum_record, spectrum_again_record]
             = Inr [spectrum_record]"
    by simp
  from fails untyped
  have raised: "isp_deduplicate_businesses [spectrum_record, nameless_record]
                = Inl AttributeError"
    by simp
  from strings run same more pair two untyped raised show ?thesis
    by (intro conjI)
qed

text \<open>
  The claim as stated fails: the operation raises on a record whose business
  name is \<^verbatim>\<open>None\<close>.
\<close>

theorem fuzzy_name_dedup_counterexample:
  "isp_deduplicate_businesses [spectrum_record, nameless_record] = Inl AttributeError
   \<and> map_of nameless_record ''business_name'' = Some PNone"
  by code_simp

section \<open>Keyword classification\<close>

text \<open>
  Claim C1, as amended.  For every business information whose five text fields
  (company name, business description, industry, category, website content)
  are strings or absent, keyword classification works on the lower-cased text
  of the fields joined by spaces.  The total of a NAICS code is the sum, over
  the registry keywords that map to it, of 10 points if the keyword occurs in
  the text as a phrase and 3 points for each word of the keyword that occurs
  in the text.  If every total is 0 the result is code 999999 with confidence
  20, the reasoning that no clear industry indicators were found and source
  \<^verbatim>\<open>keyword\<close>.  Otherwise the result names a code whose total is positive and
  greatest, with confidence \<open>min (total * 5) 85\<close> and source \<^verbatim>\<open>keyword\<close>.  For
  every other business information, joining the fields raises
  \<^verbatim>\<open>TypeError\<close>, and the result is code 999999 with confidence 0 and source
  \<^verbatim>\<open>error\<close>.
\<close>

theorem keyword_classification:
  "let result = classify_with_keywords msg info
   in if list_all (str_field info) text_keys then
        (let combined_text = combined_text_of info
         in if \<forall>code. code_total combined_text code = 0
            then result = no_match_result
                 \<and> map_of result ''naics_code'' = Some (PStr ''999999'')
                 \<and> map_of result ''confidence_score'' = Some (PInt 20)
                 \<and> map_of result ''source'' = Some (PStr ''keyword'')
            else \<exists>best. result = match_result best (code_total combined_text best)
                 \<and> 0 < code_total combined_text best
                 \<and> (\<forall>code. code_total combined_text code \<le> code_total combined_text best)
                 \<and> map_of result ''naics_code'' = Some (PStr best)
                 \<and> map_of result ''confidence_score''
                     = Some (PInt (min (code_total combined_text best * 5) 85))
                 \<and> map_of result ''source'' = Some (PStr ''keyword''))
      else result = keyword_error_result msg TypeError
           \<and> map_of result ''naics_code'' = Some (PStr ''999999'')
           \<and> map_of result ''confidence_score'' = Some (PInt 0)
           \<and> map_of result ''source'' = Some (PStr ''error'')"
proof (cases "list_all (str_field info) text_keys")
  case False
  then have "classify_with_keywords msg info = keyword_error_result msg TypeError"
    by (simp add: classify_with_keywords_def keyword_body_untyped)
  with False show ?thesis by (simp add: Let_def keyword_error_result_def)
next
  case True
  show ?thesis
  proof (cases "score_keywords (combined_text_of info)")
    case Nil
    then have "\<forall>code. code_total (combined_text_of info) code = 0" by (simp add: no_scores)
    moreover have "classify_with_keywords msg info = no_match_result"
      by (simp add: classify_with_keywords_def keyword_body_text [OF True] Nil)
    ultimately show ?thesis using True by (simp add: Let_def no_match_result_def)
  next
    case (Cons first others)
    let ?best = "fst (best_entry first others)"
    from Cons have "\<not> (\<forall>code. code_total (combined_text_of info) code = 0)"
      by (simp add: no_scores [symmetric])
    moreover have "classify_with_keywords msg info
                   = match_result ?best (code_total (combined_text_of info) ?best)"
      using best_score [OF Cons]
      by (simp add: classify_with_keywords_def keyword_body_text [OF True] Cons)
    ultimately show ?thesis
      using best_score [OF Cons] True
      by (auto simp: Let_def match_result_def intro!: exI [of _ ?best])
  qed
qed

text \<open>
  A software company: the keywords \<^verbatim>\<open>software\<close> (13 points), \<^verbatim>\<open>it services\<close>
  (16), \<^verbatim>\<open>web development\<close> (16) and \<^verbatim>\<open>app development\<close> (3) give code 541511 a
  total of 48, no code has more, and the confidence is capped at 85.
\<close>

theorem keyword_classification_witness:
  "list_all (str_field software_record) text_keys
   \<and> classify_with_keywords (\<lambda>e. ''TypeError'') software_record
       = [(''success'', PBool True),
          (''naics_code'', PStr ''541511''),
          (''industry_description'', PStr ''Custom Computer Programming Services''),
          (''confidence_score'', PInt 85),
          (''reasoning'', PStr ''Keyword-based classification (score: 48)''),
          (''source'', PStr ''keyword''),
          (''model'', PStr ''keyword_matching'')]
   \<and> code_total (combined_text_of software_record) ''541511'' = 48
   \<and> (\<forall>code. code_total (combined_text_of software_record) code \<le> 48)"
proof -
  have strings: "list_all (str_field software_record) text_keys"
    by code_simp
  have run: "classify_with_keywords (\<lambda>e. ''TypeError'') software_record
       = [(''success'', PBool True),
          (''naics_code'', PStr ''541511''),
          (''industry_description'', PStr ''Custom Computer Programming Services''),
          (''confidence_score'', PInt 85),
          (''reasoning'', PStr ''Keyword-based classification (score: 48)''),
          (''source'', PStr ''keyword''),
          (''model'', PStr ''keyword_matching'')]"
    by code_simp
  have total_score: "code_total (combined_text_of software_record) ''541511'' = 48"
    by code_simp
  then have some: "\<not> (\<forall>code. code_total (combined_text_of software_record) code = 0)"
    by (auto intro: exI [of _ "''541511''"])
  from keyword_classification [of "\<lambda>e. ''TypeError''" software_record] strings some
  obtain best where
    "\<forall>code. code_total (combined_text_of software_record) code
            \<le> code_total (combined_text_of software_record) best"
    and "map_of (classify_with_keywords (\<lambda>e. ''TypeError'') software_record) ''naics_code''
         = Some (PStr best)"
    by (auto simp: Let_def)
  with run total_score
  have "\<forall>code. code_total (combined_text_of software_record) code \<le> 48"
    by simp
  with strings run total_score show ?thesis by (intro conjI)
qed

text \<open>
  The claim as stated fails: on a business information whose company name is
  \<^verbatim>\<open>None\<close> the result has source \<^verbatim>\<open>error\<close> and confidence 0, although its
  description holds the keyword \<^verbatim>\<open>software\<close>.
\<close>

theorem keyword_classification_counterexample:
  "classify_with_keywords (\<lambda>e. ''TypeError'') untyped_record
     = keyword_error_result (\<lambda>e. ''TypeError'') TypeError
   \<and> map_of (classify_with_keywords (\<lambda>e. ''TypeError'') untyped_record) ''source''
       = Some (PStr ''error'')
   \<and> map_of (classify_with_keywords (\<lambda>e. ''TypeError'') untyped_record) ''confidence_score''
       = Some (PInt 0)
   \<and> map_of untyped_record ''business_description'' = Some (PStr ''software'')"
  by (simp add: classify_with_keywords_def keyword_body_def untyped_record_def text_keys_def
      get_default_def join_values_def bind_exn_def keyword_error_result_def)

section \<open>Errors of classification\<close>

text \<open>
  Claim C3, as amended.  \<^verbatim>\<open>classify\<close> returns a result for every business
  information and every AI capability: the body of its \<^verbatim>\<open>try\<close> returns in every
  case, so no exception reaches its handler.  The result is the AI result when
  that is accepted, and the result of the keyword path otherwise.  An
  exception of the AI path is caught there and classification goes on with the
  keyword path.  An exception of the keyword path, with or without an AI
  capability, is turned into the result with code 999999, confidence 0 and
  source \<^verbatim>\<open>error\<close>.  A result with source \<^verbatim>\<open>error\<close> has confidence 0 and code
  999999, unless it is an accepted AI result whose source label the AI
  capability itself set to \<^verbatim>\<open>error\<close>.
\<close>

theorem classify_error_confidence:
  "let result = classify msg llm_client info
   in classify_body msg llm_client info = Inr result
      \<and> (case accepted_ai_result msg llm_client info of
            Some ai_result \<Rightarrow> result = ai_result
          | None \<Rightarrow> result = classify_with_keywords msg info)
      \<and> (\<forall>llm e. llm_client = Some llm \<and> ai_body llm info = Inl e
            \<longrightarrow> result = classify_with_keywords msg info)
      \<and> (\<forall>e. accepted_ai_result msg llm_client info = None \<and> keyword_body info = Inl e
            \<longrightarrow> result = keyword_error_result msg e
                \<and> map_of result ''naics_code'' = Some (PStr ''999999'')
                \<and> map_of result ''confidence_score'' = Some (PInt 0)
                \<and> map_of result ''source'' = Some (PStr ''error''))
      \<and> (map_of result ''source'' = Some (PStr ''error'')
            \<longrightarrow> (map_of result ''confidence_score'' = Some (PInt 0)
                 \<and> map_of result ''naics_code'' = Some (PStr ''999999''))
                \<or> (\<exists>llm answer. llm_client = Some llm \<and> llm info = Inr answer
                      \<and> map_of answer ''source'' = Some (PStr ''error'')
                      \<and> accepted_ai_result msg llm_client info = Some result))"
proof -
  let ?result = "classify msg llm_client info"
  let ?accepted = "accepted_ai_result msg llm_client info"
  have body: "classify_body msg llm_client info =
              Inr (case ?accepted of Some ai_result \<Rightarrow> ai_result
                   | None \<Rightarrow> classify_with_keywords msg info)"
    by (rule classify_accepted)
  then have result: "?result = (case ?accepted of Some ai_result \<Rightarrow> ai_result
                                | None \<Rightarrow> classify_with_keywords msg info)"
    by (simp add: classify_def)
  have returns: "classify_body msg llm_client info = Inr ?result"
    by (simp add: body result)
  have which: "case ?accepted of Some ai_result \<Rightarrow> ?result = ai_result
               | None \<Rightarrow> ?result = classify_with_keywords msg info"
    by (simp add: result split: option.splits)
  have degrade: "?result = classify_with_keywords msg info"
    if "llm_client = Some llm" "ai_body llm info = Inl e" for llm e
  proof -
    from that have "?accepted = None"
      by (simp add: accepted_ai_result_def classify_with_ai_def ai_accepted_def subscript_def
          bind_exn_def)
    then show ?thesis by (simp add: result)
  qed
  have keyword: "?result = keyword_error_result msg e
                 \<and> map_of ?result ''naics_code'' = Some (PStr ''999999'')
                 \<and> map_of ?result ''confidence_score'' = Some (PInt 0)
                 \<and> map_of ?result ''source'' = Some (PStr ''error'')"
    if "?accepted = None" "keyword_body info = Inl e" for e
    using that by (simp add: result classify_with_keywords_def keyword_error_result_def)
  have error: "(map_of ?result ''confidence_score'' = Some (PInt 0)
                 \<and> map_of ?result ''naics_code'' = Some (PStr ''999999''))
                \<or> (\<exists>llm answer. llm_client = Some llm \<and> llm info = Inr answer
                      \<and> map_of answer ''source'' = Some (PStr ''error'')
                      \<and> ?accepted = Some ?result)"
    if source: "map_of ?result ''source'' = Some (PStr ''error'')"
  proof (cases ?accepted)
    case None
    then have "?result = classify_with_keywords msg info" by (simp add: result)
    with source keyword_result_error [of msg info] show ?thesis by simp
  next
    case (Some ai_result)
    then have same: "?result = ai_result" by (simp add: result)
    from accepted_source [OF Some] obtain llm answer
      where llm: "llm_client = Some llm" "llm info = Inr answer"
        and label: "map_of ai_result ''source'' = Some (get_default answer ''source'' (PStr ''ai''))"
      by blast
    from source same label have "get_default answer ''source'' (PStr ''ai'') = PStr ''error''"
      by simp
    then have "map_of answer ''source'' = Some (PStr ''error'')"
      by (auto simp: get_default_def split: option.splits)
    with llm Some same show ?thesis by simp
  qed
  show ?thesis
    unfolding Let_def
  proof (intro conjI allI impI)
    show "classify_body msg llm_client info = Inr ?result" by (rule returns)
    show "case ?accepted of Some ai_result \<Rightarrow> ?result = ai_result
          | None \<Rightarrow> ?result = classify_with_keywords msg info"
      by (rule which)
  qed (use degrade keyword error in blast)+
qed

text \<open>
  A business information whose company name is \<^verbatim>\<open>None\<close>, classified with an
  AI capability whose call raises: the AI path gives way to the keyword path,
  which raises \<^verbatim>\<open>TypeError\<close>, and the result is the error result.
\<close>

theorem classify_error_confidence_witness:
  "ai_body failing_llm untyped_record = Inl OtherError
   \<and> accepted_ai_result (\<lambda>e. ''TypeError'') (Some failing_llm) untyped_record = None
   \<and> keyword_body untyped_record = Inl TypeError
   \<and> classify (\<lambda>e. ''TypeError'') (Some failing_llm) untyped_record
       = [(''success'', PBool False),
          (''naics_code'', PStr ''999999''),
          (''industry_description'', PStr ''Classification error''),
          (''confidence_score'', PInt 0),
          (''reasoning'', PStr ''Keyword classification error: TypeError''),
          (''source'', PStr ''error''),
          (''model'', PStr ''keyword_matching'')]
   \<and> classify_body (\<lambda>e. ''TypeError'') (Some failing_llm) untyped_record
       = Inr (classify (\<lambda>e. ''TypeError'') (Some failing_llm) untyped_record)"
proof -
  have ai: "ai_body failing_llm untyped_record = Inl OtherError"
    by (simp add: ai_body_def failing_llm_def bind_exn_def)
  have rejected: "accepted_ai_result (\<lambda>e. ''TypeError'') (Some failing_llm) untyped_record = None"
    by (simp add: accepted_ai_result_def classify_with_ai_def ai ai_accepted_def subscript_def
        bind_exn_def)
  have raised: "keyword_body untyped_record = Inl TypeError"
    by (simp add: keyword_body_def untyped_record_def text_keys_def get_default_def
        join_values_def bind_exn_def)
  note facts = classify_error_confidence [of "\<lambda>e. ''TypeError''" "Some failing_llm"
      untyped_record, unfolded Let_def]
  from facts rejected raised
  have "classify (\<lambda>e. ''TypeError'') (Some failing_llm) untyped_record
        = keyword_error_result (\<lambda>e. ''TypeError'') TypeError"
    by blast
  then have result: "classify (\<lambda>e. ''TypeError'') (Some failing_llm) untyped_record
       = [(''success'', PBool False),
          (''naics_code'', PStr ''999999''),
          (''industry_description'', PStr ''Classification error''),
          (''confidence_score'', PInt 0),
          (''reasoning'', PStr ''Keyword classification error: TypeError''),
          (''source'', PStr ''error''),
          (''model'', PStr ''keyword_matching'')]"
    by (simp add: keyword_error_result_def)
  from facts have "classify_body (\<lambda>e. ''TypeError'') (Some failing_llm) untyped_record
       = Inr (classify (\<lambda>e. ''TypeError'') (Some failing_llm) untyped_record)"
    by blast
  with ai rejected raised result show ?thesis by (intro conjI)
qed

text \<open>
  The claim as stated fails: a result with source \<^verbatim>\<open>error\<close> need not have
  confidence 0.  An AI answer that reports success with confidence 90 and
  carries the source label \<^verbatim>\<open>error\<close> is accepted and returned as it is.
\<close>

theorem classify_error_counterexample:
  "map_of (classify (\<lambda>e. ''TypeError'') (Some error_label_llm) software_record) ''source''
     = Some (PStr ''error'')
   \<and> map_of (classify (\<lambda>e. ''TypeError'') (Some error_label_llm) software_record)
       ''confidence_score'' = Some (PInt 90)
   \<and> map_of (classify (\<lambda>e. ''TypeError'') (Some error_label_llm) software_record) ''naics_code''
     = Some (PStr ''541511'')"
  by code_simp

section \<open>The record of Acme Fiber Internet\<close>



section \<open>Acceptance of the AI result\<close>

text \<open>
  Claim C2 at an answer of the AI capability whose code is six digits followed
  by a line break: the answer reports success and confidence 90, the pattern
  \<^verbatim>\<open>^\d{6}$\<close> accepts the code, and the accepted classification carries the
  seven-character code.
\<close>

theorem ai_code_with_line_break:
  "map_of (classify (\<lambda>e. ''TypeError'') (Some line_break_llm) software_record) ''naics_code''
     = Some (PStr (''541511'' @ [newline]))
   \<and> map_of (classify (\<lambda>e. ''TypeError'') (Some line_break_llm) software_record) ''source''
     = Some (PStr ''local'')
   \<and> length (''541511'' @ [newline]) = 7"
  by code_simp

end
